theory Spec2Isabelle
  imports Main
begin

section \<open>The transport\<close>

text \<open>
  Modelled from the spec: the transport is the MPI library (\<^verbatim>\<open>mpi.h\<close>), an external
  collaborator that is not part of the repository. The wrappers of
  \<^verbatim>\<open>mpi-plus.cpp\<close> call it through raw handles. Its state is modelled for one process:
  the table of live communicator handles, the table of live request handles, the
  messages that have arrived for this process and are not yet received (in arrival
  order), the messages this process has handed over (in send order), and the log of the
  transport calls the process has made (oldest first).

  A call that the transport aborts (an invalid handle, a truncated receive) ends in
  \<open>transport_fault\<close>; a blocking call that finds nothing to complete with in the
  current state does not return, which is the value \<open>never_returns\<close>. Standard-mode
  sends are buffered: they return at once. A failure comes with the state the process
  is in when the call fails (an exception leaves the effects of the calls made before
  it in place). The counts of the transport are C \<^verbatim>\<open>int\<close>s of 32 bits: a negative count
  is a fault, and the wrappers narrow every \<^verbatim>\<open>size_t\<close> they pass (\<open>to_int\<close> below).

  The transport keeps the address of the buffer of a non-blocking receive and stores
  the bytes there when the request completes (the standard lets it store them at any
  time up to then). Storing into storage whose lifetime has ended is undefined
  behaviour: the model stops there with \<open>use_after_scope\<close>. For the places of
  strings the state also carries two facts of the C++ runtime of the process: the
  number of characters a string keeps inline, and the number of heap blocks handed out.
\<close>

type_synonym MPI_Comm = nat
type_synonym MPI_Request = nat

definition MPI_COMM_NULL :: MPI_Comm where
  "MPI_COMM_NULL = 0"

definition MPI_COMM_WORLD :: MPI_Comm where
  "MPI_COMM_WORLD = 1"

definition MPI_REQUEST_NULL :: MPI_Request where
  "MPI_REQUEST_NULL = 0"

definition MPI_ANY_SOURCE :: int where
  "MPI_ANY_SOURCE = - 2"

definition MPI_ANY_TAG :: int where
  "MPI_ANY_TAG = - 1"

datatype failure =
    logic_error
  | invalid_argument
  | length_error
  | division_by_zero
  | use_after_scope
  | transport_fault
  | never_returns

text \<open>\<^verbatim>\<open>std::invalid_argument\<close> and \<^verbatim>\<open>std::length_error\<close> derive from
  \<^verbatim>\<open>std::logic_error\<close>: the three are usage errors.\<close>

fun usage_error :: "failure \<Rightarrow> bool" where
  "usage_error logic_error = True"
| "usage_error invalid_argument = True"
| "usage_error length_error = True"
| "usage_error division_by_zero = False"
| "usage_error use_after_scope = False"
| "usage_error transport_fault = False"
| "usage_error never_returns = False"

record MPI_Status =
  MPI_SOURCE :: int
  MPI_TAG :: int
  n_bytes :: nat

record message =
  m_context :: nat
  m_source :: int
  m_dest :: int
  m_tag :: int
  m_data :: string

text \<open>What a communicator handle stands for: a context shared by the ranks of the
  group, this process's rank in it and the number of ranks.\<close>

record group =
  ctx :: nat
  my_rank :: int
  n_ranks :: int

text \<open>Where the characters of a \<^verbatim>\<open>std::string\<close> are stored: in a heap block, in the
  inline storage of the string member of a Request object (short strings are kept
  inside the string object itself), or in the inline storage of a local string of a
  call. The last is gone once that call has returned.\<close>

datatype place =
    Heap nat
  | Inline_of_request
  | Inline_of_local

text \<open>The operation a request handle tracks: a send the transport has buffered, a
  receive already matched with an arrived message (its bytes, the posted count and the
  place of the posted buffer), a receive still waiting for a message, or a cancelled
  operation.\<close>

datatype operation =
    Send_buffered
  | Recv_matched string nat place
  | Recv_posted group int int nat place
  | Cancelled

datatype mpi_call =
    Call_Comm_dup MPI_Comm
  | Call_Comm_free MPI_Comm
  | Call_Probe int int
  | Call_Iprobe int int
  | Call_Recv int int int
  | Call_Irecv int int int
  | Call_Send int int int
  | Call_Isend int int int
  | Call_Wait MPI_Request
  | Call_Cancel MPI_Request
  | Call_Request_free MPI_Request
  | Call_Alltoall int int

record world =
  comms :: "MPI_Comm \<rightharpoonup> group"
  comm_counter :: nat
  requests :: "MPI_Request \<rightharpoonup> operation"
  request_counter :: nat
  arrived :: "message list"
  departed :: "message list"
  calls :: "mpi_call list"
  small_string :: nat
  heap_counter :: nat

text \<open>The outcome of a call: a failure with the state the process is in when it fails, or
  a result.\<close>

type_synonym 'a outcome = "failure \<times> world + 'a"

definition called :: "mpi_call \<Rightarrow> world \<Rightarrow> world" where
  "called c w = w\<lparr>calls := calls w @ [c]\<rparr>"

text \<open>A receive or probe on a communicator, with a source and a tag that may be
  wildcards, matches a message of the same context addressed to this rank.\<close>

definition matches ::
  "group \<Rightarrow> int \<Rightarrow> int \<Rightarrow> message \<Rightarrow> bool" where
  "matches g source tag m =
     (m_context m = ctx g \<and> m_dest m = my_rank g \<and>
      (source = MPI_ANY_SOURCE \<or> m_source m = source) \<and>
      (tag = MPI_ANY_TAG \<or> m_tag m = tag))"

text \<open>The null handles are never live.\<close>

definition group_of :: "world \<Rightarrow> MPI_Comm \<Rightarrow> group option" where
  "group_of w c = (if c = MPI_COMM_NULL then None else comms w c)"

definition operation_of ::
  "world \<Rightarrow> MPI_Request \<Rightarrow> operation option" where
  "operation_of w h = (if h = MPI_REQUEST_NULL then None else requests w h)"

definition release :: "MPI_Request \<Rightarrow> world \<Rightarrow> world" where
  "release h w = w\<lparr>requests := (requests w)(h := None)\<rparr>"

definition status_of :: "message \<Rightarrow> MPI_Status" where
  "status_of m = \<lparr>MPI_SOURCE = m_source m, MPI_TAG = m_tag m, n_bytes = length (m_data m)\<rparr>"

text \<open>The count of a status is an \<^verbatim>\<open>int\<close>: a size that does not fit is reported as
  \<^verbatim>\<open>MPI_UNDEFINED\<close>.\<close>

definition MPI_UNDEFINED :: int where
  "MPI_UNDEFINED = - 32766"

definition MPI_Get_count :: "MPI_Status \<Rightarrow> int" where
  "MPI_Get_count s = (if n_bytes s < 2 ^ 31 then int (n_bytes s) else MPI_UNDEFINED)"

definition MPI_Comm_size :: "world \<Rightarrow> MPI_Comm \<Rightarrow> int outcome" where
  "MPI_Comm_size w c =
     (case group_of w c of None \<Rightarrow> Inl (transport_fault, w) | Some g \<Rightarrow> Inr (n_ranks g))"

definition MPI_Comm_rank :: "world \<Rightarrow> MPI_Comm \<Rightarrow> int outcome" where
  "MPI_Comm_rank w c =
     (case group_of w c of None \<Rightarrow> Inl (transport_fault, w) | Some g \<Rightarrow> Inr (my_rank g))"

text \<open>Duplication is collective: every rank of the group takes the next value of its
  counter as the new handle and as the new context, so ranks that duplicate in the same
  order agree on the context. The new group has the ranks of the old one.\<close>

definition MPI_Comm_dup ::
  "world \<Rightarrow> MPI_Comm \<Rightarrow> (MPI_Comm \<times> world) outcome" where
  "MPI_Comm_dup w c =
     (case group_of w c of
        None \<Rightarrow> Inl (transport_fault, w)
      | Some g \<Rightarrow>
          let h = Suc (comm_counter w) in
          Inr (h, called (Call_Comm_dup c)
                    (w\<lparr>comms := (comms w)(h \<mapsto> g\<lparr>ctx := h\<rparr>), comm_counter := h\<rparr>)))"

definition MPI_Comm_free ::
  "world \<Rightarrow> MPI_Comm \<Rightarrow> (MPI_Comm \<times> world) outcome" where
  "MPI_Comm_free w c =
     (case group_of w c of
        None \<Rightarrow> Inl (transport_fault, w)
      | Some g \<Rightarrow>
          Inr (MPI_COMM_NULL, called (Call_Comm_free c) (w\<lparr>comms := (comms w)(c := None)\<rparr>)))"

definition MPI_Probe ::
  "world \<Rightarrow> int \<Rightarrow> int \<Rightarrow> MPI_Comm \<Rightarrow> (MPI_Status \<times> world) outcome" where
  "MPI_Probe w source tag c =
     (case group_of w c of
        None \<Rightarrow> Inl (transport_fault, w)
      | Some g \<Rightarrow>
          (case find (matches g source tag) (arrived w) of
             None \<Rightarrow> Inl (never_returns, w)
           | Some m \<Rightarrow> Inr (status_of m, called (Call_Probe source tag) w)))"

text \<open>The non-blocking probe leaves the caller's status variable as it was when no
  message matches.\<close>

definition MPI_Iprobe ::
  "world \<Rightarrow> int \<Rightarrow> int \<Rightarrow> MPI_Comm \<Rightarrow> MPI_Status \<Rightarrow> (bool \<times> MPI_Status \<times> world) outcome" where
  "MPI_Iprobe w source tag c status0 =
     (case group_of w c of
        None \<Rightarrow> Inl (transport_fault, w)
      | Some g \<Rightarrow>
          (case find (matches g source tag) (arrived w) of
             None \<Rightarrow> Inr (False, status0, called (Call_Iprobe source tag) w)
           | Some m \<Rightarrow> Inr (True, status_of m, called (Call_Iprobe source tag) w)))"

text \<open>A send names a rank of the group and a tag that is not negative. It takes the
  first \<open>count\<close> bytes of the buffer; a negative count is a fault.\<close>

definition addressable :: "group \<Rightarrow> int \<Rightarrow> int \<Rightarrow> bool" where
  "addressable g dest tag = (0 \<le> dest \<and> dest < n_ranks g \<and> 0 \<le> tag)"

definition outgoing ::
  "group \<Rightarrow> string \<Rightarrow> nat \<Rightarrow> int \<Rightarrow> int \<Rightarrow> message" where
  "outgoing g buf count dest tag =
     \<lparr>m_context = ctx g, m_source = my_rank g, m_dest = dest, m_tag = tag,
      m_data = take count buf\<rparr>"

definition MPI_Send ::
  "world \<Rightarrow> string \<Rightarrow> int \<Rightarrow> int \<Rightarrow> int \<Rightarrow> MPI_Comm \<Rightarrow> world outcome" where
  "MPI_Send w buf count dest tag c =
     (case group_of w c of
        None \<Rightarrow> Inl (transport_fault, w)
      | Some g \<Rightarrow>
          if 0 \<le> count \<and> addressable g dest tag
          then Inr (called (Call_Send count dest tag)
                      (w\<lparr>departed := departed w @ [outgoing g buf (nat count) dest tag]\<rparr>))
          else Inl (transport_fault, w))"

text \<open>A receive takes the first matching message. The bytes of the message overwrite the
  front of the buffer; a message longer than the posted count is a truncation fault.\<close>

definition store_into :: "string \<Rightarrow> string \<Rightarrow> string" where
  "store_into buf d = d @ drop (length d) buf"

definition MPI_Recv ::
  "world \<Rightarrow> string \<Rightarrow> int \<Rightarrow> int \<Rightarrow> int \<Rightarrow> MPI_Comm \<Rightarrow> (string \<times> world) outcome" where
  "MPI_Recv w buf count source tag c =
     (case group_of w c of
        None \<Rightarrow> Inl (transport_fault, w)
      | Some g \<Rightarrow>
          if count < 0 then Inl (transport_fault, w)
          else
          (case find (matches g source tag) (arrived w) of
             None \<Rightarrow> Inl (never_returns, w)
           | Some m \<Rightarrow>
               if nat count < length (m_data m) then Inl (transport_fault, w)
               else Inr (store_into buf (m_data m),
                         called (Call_Recv count source tag)
                           (w\<lparr>arrived := remove1 m (arrived w)\<rparr>))))"

definition MPI_Isend ::
  "world \<Rightarrow> string \<Rightarrow> int \<Rightarrow> int \<Rightarrow> int \<Rightarrow> MPI_Comm \<Rightarrow> (MPI_Request \<times> world) outcome" where
  "MPI_Isend w buf count dest tag c =
     (case group_of w c of
        None \<Rightarrow> Inl (transport_fault, w)
      | Some g \<Rightarrow>
          if 0 \<le> count \<and> addressable g dest tag
          then let h = Suc (request_counter w) in
               Inr (h, called (Call_Isend count dest tag)
                         (w\<lparr>departed := departed w @ [outgoing g buf (nat count) dest tag],
                            requests := (requests w)(h \<mapsto> Send_buffered),
                            request_counter := h\<rparr>))
          else Inl (transport_fault, w))"

text \<open>A non-blocking receive is given the place of its buffer (\<^verbatim>\<open>&buf[0]\<close>). It is matched
  when it is posted if a matching message has arrived; the bytes reach the place it was
  given when the request completes.\<close>

definition MPI_Irecv ::
  "world \<Rightarrow> place \<Rightarrow> int \<Rightarrow> int \<Rightarrow> int \<Rightarrow> MPI_Comm \<Rightarrow> (MPI_Request \<times> world) outcome" where
  "MPI_Irecv w buf_at count source tag c =
     (case group_of w c of
        None \<Rightarrow> Inl (transport_fault, w)
      | Some g \<Rightarrow>
          if count < 0 then Inl (transport_fault, w)
          else
          let h = Suc (request_counter w) in
          (case find (matches g source tag) (arrived w) of
             None \<Rightarrow>
               Inr (h, called (Call_Irecv count source tag)
                         (w\<lparr>requests :=
                              (requests w)(h \<mapsto> Recv_posted g source tag (nat count) buf_at),
                            request_counter := h\<rparr>))
           | Some m \<Rightarrow>
               Inr (h, called (Call_Irecv count source tag)
                         (w\<lparr>arrived := remove1 m (arrived w),
                            requests :=
                              (requests w)(h \<mapsto> Recv_matched (m_data m) (nat count) buf_at),
                            request_counter := h\<rparr>))))"

text \<open>Completing a receive stores the bytes at the place the receive was posted with,
  \<open>target\<close>. The caller of the wait holds a string with contents \<open>buf\<close> at \<open>buf_at\<close>:
  it sees the bytes when that is the place stored to, and its string is as before
  otherwise. A target that was the inline storage of a local string of a call that has
  returned is no longer storage to write to (no wrapper waits inside the call that
  posted the receive); a message of no bytes writes nothing.\<close>

definition complete ::
  "place \<Rightarrow> string \<Rightarrow> place \<Rightarrow> string \<Rightarrow> failure + string" where
  "complete target d buf_at buf =
     (if d = [] then Inr buf
      else if target = Inline_of_local then Inl use_after_scope
      else if target = buf_at then Inr (store_into buf d)
      else Inr buf)"

text \<open>Waiting on the null handle returns at once. Waiting on a live handle completes
  the operation, releases the handle and sets the caller's handle to null; a receive
  that is still unmatched completes with the first matching message that has arrived
  and does not return when there is none.\<close>

definition MPI_Wait ::
  "world \<Rightarrow> MPI_Request \<Rightarrow> place \<Rightarrow> string
     \<Rightarrow> (MPI_Request \<times> string \<times> world) outcome" where
  "MPI_Wait w h buf_at buf =
     (if h = MPI_REQUEST_NULL then Inr (h, buf, called (Call_Wait h) w)
      else
        (case operation_of w h of
           None \<Rightarrow> Inl (transport_fault, w)
         | Some Send_buffered \<Rightarrow>
             Inr (MPI_REQUEST_NULL, buf, called (Call_Wait h) (release h w))
         | Some Cancelled \<Rightarrow>
             Inr (MPI_REQUEST_NULL, buf, called (Call_Wait h) (release h w))
         | Some (Recv_matched d count target) \<Rightarrow>
             if count < length d then Inl (transport_fault, w)
             else
               (case complete target d buf_at buf of
                  Inl e \<Rightarrow> Inl (e, w)
                | Inr b \<Rightarrow> Inr (MPI_REQUEST_NULL, b, called (Call_Wait h) (release h w)))
         | Some (Recv_posted g source tag count target) \<Rightarrow>
             (case find (matches g source tag) (arrived w) of
                None \<Rightarrow> Inl (never_returns, w)
              | Some m \<Rightarrow>
                  if count < length (m_data m) then Inl (transport_fault, w)
                  else
                    (case complete target (m_data m) buf_at buf of
                       Inl e \<Rightarrow> Inl (e, w)
                     | Inr b \<Rightarrow>
                         Inr (MPI_REQUEST_NULL, b,
                              called (Call_Wait h)
                                (release h (w\<lparr>arrived := remove1 m (arrived w)\<rparr>)))))))"

text \<open>Cancelling marks an unmatched receive as cancelled and has no effect on an
  operation that has already gone through. Freeing releases the handle.\<close>

definition MPI_Cancel :: "world \<Rightarrow> MPI_Request \<Rightarrow> world outcome" where
  "MPI_Cancel w h =
     (case operation_of w h of
        None \<Rightarrow> Inl (transport_fault, w)
      | Some (Recv_posted g source tag count target) \<Rightarrow>
          Inr (called (Call_Cancel h) (w\<lparr>requests := (requests w)(h \<mapsto> Cancelled)\<rparr>))
      | Some _ \<Rightarrow> Inr (called (Call_Cancel h) w))"

definition MPI_Request_free ::
  "world \<Rightarrow> MPI_Request \<Rightarrow> (MPI_Request \<times> world) outcome" where
  "MPI_Request_free w h =
     (case operation_of w h of
        None \<Rightarrow> Inl (transport_fault, w)
      | Some _ \<Rightarrow> Inr (MPI_REQUEST_NULL, called (Call_Request_free h) (release h w)))"

text \<open>The all-to-all exchange is collective. \<open>peers\<close> lists, in rank order, the send
  buffer and the send count every rank of the group passes (the entry at this rank's
  own index is replaced by its own arguments). Every rank must pass the count this rank
  receives with and a buffer that holds one block per rank; block \<open>j\<close> of the receive
  buffer is the block that rank \<open>j\<close> addressed to this rank. A negative count is a
  fault.\<close>

definition block :: "nat \<Rightarrow> nat \<Rightarrow> string \<Rightarrow> string" where
  "block k i b = take k (drop (i * k) b)"

definition MPI_Alltoall ::
  "world \<Rightarrow> (string \<times> int) list \<Rightarrow> string \<Rightarrow> int \<Rightarrow> string \<Rightarrow> int \<Rightarrow> MPI_Comm
     \<Rightarrow> (string \<times> world) outcome" where
  "MPI_Alltoall w peers sendbuf sendcount recvbuf recvcount c =
     (case group_of w c of
        None \<Rightarrow> Inl (transport_fault, w)
      | Some g \<Rightarrow>
          let n = nat (n_ranks g); me = nat (my_rank g);
              everyone = peers[me := (sendbuf, sendcount)]
          in if 0 \<le> my_rank g \<and> me < n \<and> length everyone = n \<and> 0 \<le> recvcount \<and>
                list_all (\<lambda>(b, k). k = recvcount \<and> n * nat k \<le> length b) everyone \<and>
                n * nat recvcount \<le> length recvbuf
             then Inr (concat (map (\<lambda>(b, k). block (nat k) me b) everyone)
                         @ drop (n * nat recvcount) recvbuf,
                       called (Call_Alltoall sendcount recvcount) w)
             else Inl (transport_fault, w))"

section \<open>Status\<close>

text \<open>\<^verbatim>\<open>class mpi::Status\<close>: the transport's status and the null flag. The default
  constructor leaves the \<^verbatim>\<open>status\<close> member uninitialised; \<open>indeterminate\<close> stands for
  those bytes, which no accessor reads while the flag is set.\<close>

record Status =
  status :: MPI_Status
  null :: bool

definition indeterminate :: MPI_Status where
  "indeterminate = \<lparr>MPI_SOURCE = 0, MPI_TAG = 0, n_bytes = 0\<rparr>"

definition Status_default :: Status where
  "Status_default = \<lparr>status = indeterminate, null = True\<rparr>"

definition Status_of :: "MPI_Status \<Rightarrow> Status" where
  "Status_of s = \<lparr>status = s, null = False\<rparr>"

definition Status_is_null :: "Status \<Rightarrow> bool" where
  "Status_is_null st = null st"

definition Status_count :: "Status \<Rightarrow> int" where
  "Status_count st = (if Status_is_null st then 0 else MPI_Get_count (status st))"

definition Status_source :: "Status \<Rightarrow> int" where
  "Status_source st = (if Status_is_null st then - 1 else MPI_SOURCE (status st))"

definition Status_tag :: "Status \<Rightarrow> int" where
  "Status_tag st = (if Status_is_null st then - 1 else MPI_TAG (status st))"

section \<open>Raw bytes\<close>

text \<open>
  A \<^verbatim>\<open>std::string\<close> is the list of its bytes. A value of a trivially copyable type
  \<^verbatim>\<open>T\<close> is its object representation, a list of \<^verbatim>\<open>sizeof(T)\<close> bytes, and the
  template functions take \<^verbatim>\<open>sizeof(T)\<close> as their first argument. \<open>memcpy dst src n\<close>
  is the destination after the first \<open>n\<close> bytes of the source have been copied over
  its front. \<^verbatim>\<open>T()\<close> is modelled as the zero-initialised object; every byte of it is
  overwritten before it is read.
\<close>

definition zeros :: "nat \<Rightarrow> string" where
  "zeros n = replicate n (CHR 0x00)"

definition value_init :: "nat \<Rightarrow> string" where
  "value_init sizeof_T = zeros sizeof_T"

definition memcpy :: "string \<Rightarrow> string \<Rightarrow> nat \<Rightarrow> string" where
  "memcpy dst src n = take n src @ drop n dst"

text \<open>
  Sizes are \<^verbatim>\<open>size_t\<close>; an \<^verbatim>\<open>int\<close> operand is converted to it, modulo \<open>2 ^ 64\<close>.
  The remainder and the quotient by zero are undefined in C++: the model stops there
  with \<open>division_by_zero\<close>.
\<close>

definition to_size_t :: "int \<Rightarrow> nat" where
  "to_size_t i = nat (i mod 2 ^ 64)"

text \<open>
  A \<^verbatim>\<open>size_t\<close> passed where the transport takes an \<^verbatim>\<open>int\<close> count is narrowed: the
  low 32 bits, read as a signed number. (A \<^verbatim>\<open>size_t\<close> product that wrapped modulo
  \<open>2 ^ 64\<close> has the same low 32 bits as the exact product.)
\<close>

definition to_int :: "nat \<Rightarrow> int" where
  "to_int n = (let m = int n mod 2 ^ 32 in if m < 2 ^ 31 then m else m - 2 ^ 32)"

text \<open>
  \<^verbatim>\<open>std::string(n, 0)\<close>: \<open>n\<close> zero bytes, or \<^verbatim>\<open>std::length_error\<close> when \<open>n\<close> is more
  than a string can hold. No implementation holds more than \<open>2 ^ 63 - 1\<close> characters; a
  size that came from an \<^verbatim>\<open>int\<close> is below that when the \<^verbatim>\<open>int\<close> was not negative and
  above it when it was.
\<close>

definition max_size :: nat where
  "max_size = 2 ^ 63 - 1"

definition std_string :: "nat \<Rightarrow> failure + string" where
  "std_string n = (if max_size < n then Inl length_error else Inr (zeros n))"

text \<open>
  Where a string of \<open>n\<close> characters keeps them: inline (in the given place) when they
  are at most \<open>small_string\<close>, the inline capacity of the implementation (15 or 22
  characters in the common ones), and in a fresh heap block otherwise.
\<close>

definition string_place :: "place \<Rightarrow> nat \<Rightarrow> world \<Rightarrow> place \<times> world" where
  "string_place inline n w =
     (if n \<le> small_string w then (inline, w)
      else (Heap (Suc (heap_counter w)), w\<lparr>heap_counter := Suc (heap_counter w)\<rparr>))"

text \<open>
  \<^verbatim>\<open>target = std::move(source)\<close> on strings: a heap block changes owner; characters
  held inline are copied into the storage the target has.
\<close>

definition moved_string :: "place \<Rightarrow> place \<Rightarrow> place" where
  "moved_string target_at source_at =
     (case source_at of Heap k \<Rightarrow> Heap k | _ \<Rightarrow> target_at)"

definition cpp_mod :: "nat \<Rightarrow> nat \<Rightarrow> failure + nat" where
  "cpp_mod a b = (if b = 0 then Inl division_by_zero else Inr (a mod b))"

definition cpp_div :: "nat \<Rightarrow> nat \<Rightarrow> failure + nat" where
  "cpp_div a b = (if b = 0 then Inl division_by_zero else Inr (a div b))"

section \<open>Request\<close>

text \<open>
  \<^verbatim>\<open>class mpi::Request\<close> of \<^verbatim>\<open>mpi-plus.cpp\<close>: the transport's handle and the buffer
  member, a string: its contents and the place where it keeps them (\<open>Inline_of_request\<close>
  is the inline storage of the buffer member of the object itself, wherever the object
  is). A method that changes the object returns the object after the call.
\<close>

record Request =
  request :: MPI_Request
  buffer :: string
  buffer_at :: place

definition Request_default :: Request where
  "Request_default =
     \<lparr>request = MPI_REQUEST_NULL, buffer = [], buffer_at = Inline_of_request\<rparr>"

definition Request_is_null :: "Request \<Rightarrow> bool" where
  "Request_is_null r = (request r = MPI_REQUEST_NULL)"

definition Request_cancel ::
  "Request \<Rightarrow> world \<Rightarrow> (Request \<times> world) outcome" where
  "Request_cancel r w =
     (if \<not> Request_is_null r
      then (case MPI_Cancel w (request r) of
              Inl e \<Rightarrow> Inl e
            | Inr w1 \<Rightarrow>
                (case MPI_Request_free w1 (request r) of
                   Inl e \<Rightarrow> Inl e
                 | Inr (h, w2) \<Rightarrow> Inr (r\<lparr>request := h\<rparr>, w2)))
      else Inr (r, w))"

text \<open>The destructor; the object it returns is the one whose storage is then given up.\<close>

definition Request_destroy ::
  "Request \<Rightarrow> world \<Rightarrow> (Request \<times> world) outcome" where
  "Request_destroy r w = Request_cancel r w"

text \<open>Move assignment from another object, for two distinct objects (assigning an
  object to itself is not modelled): the result is this object and the other one
  after the call. The moved-from string is left empty.\<close>

definition Request_move_assign ::
  "Request \<Rightarrow> Request \<Rightarrow> world \<Rightarrow> (Request \<times> Request \<times> world) outcome" where
  "Request_move_assign this other w =
     (case Request_cancel this w of
        Inl e \<Rightarrow> Inl e
      | Inr (this1, w1) \<Rightarrow>
          Inr (this1\<lparr>buffer := buffer other,
                     buffer_at := moved_string (buffer_at this1) (buffer_at other),
                     request := request other\<rparr>,
               other\<lparr>buffer := [], buffer_at := Inline_of_request,
                     request := MPI_REQUEST_NULL\<rparr>, w1))"

definition Request_get ::
  "Request \<Rightarrow> world \<Rightarrow> (string \<times> Request \<times> world) outcome" where
  "Request_get r w =
     (case MPI_Wait w (request r) (buffer_at r) (buffer r) of
        Inl e \<Rightarrow> Inl e
      | Inr (h, b, w1) \<Rightarrow> Inr (b, r\<lparr>request := h, buffer := b\<rparr>, w1))"

definition Request_get_T ::
  "nat \<Rightarrow> Request \<Rightarrow> world \<Rightarrow> (string \<times> Request \<times> world) outcome" where
  "Request_get_T sizeof_T r w =
     (if length (buffer r) \<noteq> sizeof_T then Inl (logic_error, w)
      else
        (case MPI_Wait w (request r) (buffer_at r) (buffer r) of
           Inl e \<Rightarrow> Inl e
         | Inr (h, b, w1) \<Rightarrow>
             let value = value_init sizeof_T;
                 value = memcpy value b sizeof_T
             in Inr (value, r\<lparr>request := h, buffer := b\<rparr>, w1)))"

subsection \<open>The Request of the second program\<close>

text \<open>
  The second source file of the repository defines the same classes with a different
  \<^verbatim>\<open>Request\<close>: its destructor cancels inline, its move assignment does not cancel, and
  its \<^verbatim>\<open>wait\<close> refuses a null request. These are its methods, with the suffix
  \<open>part_000\<close>.
\<close>

definition Request_destroy_part_000 ::
  "Request \<Rightarrow> world \<Rightarrow> (Request \<times> world) outcome" where
  "Request_destroy_part_000 r w =
     (if \<not> Request_is_null r
      then (case MPI_Cancel w (request r) of
              Inl e \<Rightarrow> Inl e
            | Inr w1 \<Rightarrow>
                (case MPI_Request_free w1 (request r) of
                   Inl e \<Rightarrow> Inl e
                 | Inr (h, w2) \<Rightarrow> Inr (r\<lparr>request := h\<rparr>, w2)))
      else Inr (r, w))"

definition Request_move_assign_part_000 ::
  "Request \<Rightarrow> Request \<Rightarrow> world \<Rightarrow> (Request \<times> Request \<times> world) outcome" where
  "Request_move_assign_part_000 this other w =
     Inr (this\<lparr>buffer := buffer other,
               buffer_at := moved_string (buffer_at this) (buffer_at other),
               request := request other\<rparr>,
          other\<lparr>buffer := [], buffer_at := Inline_of_request,
                request := MPI_REQUEST_NULL\<rparr>, w)"

definition throw_if_null :: "Request \<Rightarrow> failure + unit" where
  "throw_if_null r = (if Request_is_null r then Inl logic_error else Inr ())"

definition Request_wait_part_000 ::
  "Request \<Rightarrow> world \<Rightarrow> (Request \<times> world) outcome" where
  "Request_wait_part_000 r w =
     (case throw_if_null r of
        Inl e \<Rightarrow> Inl (e, w)
      | Inr _ \<Rightarrow>
          (case MPI_Wait w (request r) (buffer_at r) (buffer r) of
             Inl e \<Rightarrow> Inl e
           | Inr (h, b, w1) \<Rightarrow> Inr (r\<lparr>request := h, buffer := b\<rparr>, w1)))"

definition Request_get_T_part_000 ::
  "nat \<Rightarrow> Request \<Rightarrow> world \<Rightarrow> (string \<times> Request \<times> world) outcome" where
  "Request_get_T_part_000 sizeof_T r w =
     (if length (buffer r) \<noteq> sizeof_T then Inl (logic_error, w)
      else
        (case Request_wait_part_000 r w of
           Inl e \<Rightarrow> Inl e
         | Inr (r1, w1) \<Rightarrow>
             let value = value_init sizeof_T;
                 value = memcpy value (buffer r1) sizeof_T
             in Inr (value, r1, w1)))"

section \<open>Communicator\<close>

text \<open>\<^verbatim>\<open>class mpi::Communicator\<close>: the group handle. The two source files agree on every
  method modelled here that both define.\<close>

record Communicator =
  comm :: MPI_Comm

definition Communicator_default :: Communicator where
  "Communicator_default = \<lparr>comm = MPI_COMM_NULL\<rparr>"

definition Communicator_is_null :: "Communicator \<Rightarrow> bool" where
  "Communicator_is_null c = (comm c = MPI_COMM_NULL)"

definition Communicator_copy ::
  "Communicator \<Rightarrow> world \<Rightarrow> (Communicator \<times> world) outcome" where
  "Communicator_copy other w =
     (if \<not> Communicator_is_null other
      then (case MPI_Comm_dup w (comm other) of
              Inl e \<Rightarrow> Inl e
            | Inr (h, w1) \<Rightarrow> Inr (Communicator_default\<lparr>comm := h\<rparr>, w1))
      else Inr (Communicator_default, w))"

definition Communicator_close ::
  "Communicator \<Rightarrow> world \<Rightarrow> (Communicator \<times> world) outcome" where
  "Communicator_close c w =
     (if \<not> Communicator_is_null c
      then (case MPI_Comm_free w (comm c) of
              Inl e \<Rightarrow> Inl e
            | Inr (h, w1) \<Rightarrow> Inr (c\<lparr>comm := MPI_COMM_NULL\<rparr>, w1))
      else Inr (c, w))"

text \<open>Copy assignment takes its argument by reference, and the reference may be to the
  object assigned to. The Communicator objects of the process therefore live in a
  store, addressed by number, and the operator works on two addresses.\<close>

type_synonym store = "nat \<Rightarrow> Communicator"

definition Communicator_assign ::
  "nat \<Rightarrow> nat \<Rightarrow> store \<Rightarrow> world \<Rightarrow> (store \<times> world) outcome" where
  "Communicator_assign this other s w =
     (case Communicator_close (s this) w of
        Inl e \<Rightarrow> Inl e
      | Inr (c1, w1) \<Rightarrow>
          let s1 = s(this := c1) in
          if \<not> Communicator_is_null (s1 other)
          then (case MPI_Comm_dup w1 (comm (s1 other)) of
                  Inl e \<Rightarrow> Inl e
                | Inr (h, w2) \<Rightarrow> Inr (s1(this := (s1 this)\<lparr>comm := h\<rparr>), w2))
          else Inr (s1, w1))"

definition Communicator_size ::
  "Communicator \<Rightarrow> world \<Rightarrow> int outcome" where
  "Communicator_size c w =
     (if Communicator_is_null c then Inr 0 else MPI_Comm_size w (comm c))"

definition Communicator_rank ::
  "Communicator \<Rightarrow> world \<Rightarrow> int outcome" where
  "Communicator_rank c w =
     (if Communicator_is_null c then Inr (- 1) else MPI_Comm_rank w (comm c))"

definition Communicator_probe ::
  "Communicator \<Rightarrow> int \<Rightarrow> int \<Rightarrow> world \<Rightarrow> (Status \<times> world) outcome" where
  "Communicator_probe c rank tag w =
     (case MPI_Probe w rank tag (comm c) of
        Inl e \<Rightarrow> Inl e
      | Inr (s, w1) \<Rightarrow> Inr (Status_of s, w1))"

definition Communicator_iprobe ::
  "Communicator \<Rightarrow> int \<Rightarrow> int \<Rightarrow> world \<Rightarrow> (Status \<times> world) outcome" where
  "Communicator_iprobe c rank tag w =
     (case MPI_Iprobe w rank tag (comm c) indeterminate of
        Inl e \<Rightarrow> Inl e
      | Inr (flag, s, w1) \<Rightarrow>
          if \<not> flag then Inr (Status_default, w1) else Inr (Status_of s, w1))"

text \<open>The blocking receive stores into the local string before the call returns.\<close>

definition Communicator_recv ::
  "Communicator \<Rightarrow> int \<Rightarrow> int \<Rightarrow> world \<Rightarrow> (string \<times> world) outcome" where
  "Communicator_recv c source tag w =
     (case Communicator_probe c source tag w of
        Inl e \<Rightarrow> Inl e
      | Inr (stat, w1) \<Rightarrow>
          (case std_string (to_size_t (Status_count stat)) of
             Inl e \<Rightarrow> Inl (e, w1)
           | Inr buf \<Rightarrow> MPI_Recv w1 buf (to_int (length buf)) source tag (comm c)))"

text \<open>The non-blocking receive is started on the local string \<^verbatim>\<open>buf\<close>, which is then
  moved into the buffer member of the Request that is returned.\<close>

definition Communicator_irecv ::
  "Communicator \<Rightarrow> int \<Rightarrow> int \<Rightarrow> world \<Rightarrow> (Request \<times> world) outcome" where
  "Communicator_irecv c source tag w =
     (case Communicator_iprobe c source tag w of
        Inl e \<Rightarrow> Inl e
      | Inr (stat, w1) \<Rightarrow>
          if Status_is_null stat then Inr (Request_default, w1)
          else
            (case std_string (to_size_t (Status_count stat)) of
               Inl e \<Rightarrow> Inl (e, w1)
             | Inr buf \<Rightarrow>
                 let (buf_at, w2) = string_place Inline_of_local (length buf) w1 in
                 (case MPI_Irecv w2 buf_at (to_int (length buf)) source tag (comm c) of
                    Inl e \<Rightarrow> Inl e
                  | Inr (req, w3) \<Rightarrow>
                      let res = Request_default;
                          res = res\<lparr>buffer := buf,
                                    buffer_at := moved_string (buffer_at res) buf_at\<rparr>;
                          res = res\<lparr>request := req\<rparr>
                      in Inr (res, w3))))"

definition Communicator_send ::
  "Communicator \<Rightarrow> string \<Rightarrow> int \<Rightarrow> int \<Rightarrow> world \<Rightarrow> world outcome" where
  "Communicator_send c buf rank tag w =
     MPI_Send w buf (to_int (length buf)) rank tag (comm c)"

text \<open>The non-blocking send copies the string into the buffer member of the Request
  before it starts the operation on that member. (A send is buffered when it is
  started, so the place of a send buffer plays no part afterwards.)\<close>

definition Communicator_isend ::
  "Communicator \<Rightarrow> string \<Rightarrow> int \<Rightarrow> int \<Rightarrow> world \<Rightarrow> (Request \<times> world) outcome" where
  "Communicator_isend c buf rank tag w =
     (let res = Request_default;
          (res_at, w0) = string_place (buffer_at res) (length buf) w;
          res = res\<lparr>buffer := buf, buffer_at := res_at\<rparr>
      in case MPI_Isend w0 (buffer res) (to_int (length buf)) rank tag (comm c) of
           Inl e \<Rightarrow> Inl e
         | Inr (h, w1) \<Rightarrow> Inr (res\<lparr>request := h\<rparr>, w1))"

definition Communicator_send_T ::
  "nat \<Rightarrow> Communicator \<Rightarrow> string \<Rightarrow> int \<Rightarrow> int \<Rightarrow> world \<Rightarrow> world outcome" where
  "Communicator_send_T sizeof_T c value rank tag w =
     (let buf = zeros sizeof_T;
          buf = memcpy buf value sizeof_T
      in Communicator_send c buf rank tag w)"

definition Communicator_isend_T ::
  "nat \<Rightarrow> Communicator \<Rightarrow> string \<Rightarrow> int \<Rightarrow> int \<Rightarrow> world \<Rightarrow> (Request \<times> world) outcome" where
  "Communicator_isend_T sizeof_T c value rank tag w =
     (let buf = zeros sizeof_T;
          buf = memcpy buf value sizeof_T
      in Communicator_isend c buf rank tag w)"

definition Communicator_recv_T ::
  "nat \<Rightarrow> Communicator \<Rightarrow> int \<Rightarrow> int \<Rightarrow> world \<Rightarrow> (string \<times> world) outcome" where
  "Communicator_recv_T sizeof_T c rank tag w =
     (case Communicator_recv c rank tag w of
        Inl e \<Rightarrow> Inl e
      | Inr (buf, w1) \<Rightarrow>
          if length buf \<noteq> sizeof_T then Inl (logic_error, w1)
          else
            let value = value_init sizeof_T;
                value = memcpy value buf sizeof_T
            in Inr (value, w1))"

text \<open>
  The collectives. \<^verbatim>\<open>size()\<close> is a \<^verbatim>\<open>const\<close> query that changes nothing, so the value
  of its repeated calls is bound once. A \<^verbatim>\<open>std::vector<T>\<close> is the list of its
  elements, and its storage is their object representations laid end to end.
\<close>

definition elements ::
  "nat \<Rightarrow> nat \<Rightarrow> string \<Rightarrow> string list" where
  "elements sizeof_T k bytes = map (\<lambda>i. block sizeof_T i bytes) [0..<k]"

definition Communicator_all_to_all ::
  "Communicator \<Rightarrow> (string \<times> int) list \<Rightarrow> string \<Rightarrow> world \<Rightarrow> (string \<times> world) outcome" where
  "Communicator_all_to_all c peers sendbuf w =
     (case Communicator_size c w of
        Inl e \<Rightarrow> Inl e
      | Inr n \<Rightarrow>
          (case cpp_mod (length sendbuf) (to_size_t n) of
             Inl e \<Rightarrow> Inl (e, w)
           | Inr r \<Rightarrow>
               if r \<noteq> 0 then Inl (invalid_argument, w)
               else
                 let recvbuf = zeros (length sendbuf) in
                 (case cpp_div (length sendbuf) (to_size_t n) of
                    Inl e \<Rightarrow> Inl (e, w)
                  | Inr sendcount \<Rightarrow>
                      (case cpp_div (length recvbuf) (to_size_t n) of
                         Inl e \<Rightarrow> Inl (e, w)
                       | Inr recvcount \<Rightarrow>
                           MPI_Alltoall w peers sendbuf (to_int sendcount)
                             recvbuf (to_int recvcount) (comm c)))))"

definition Communicator_all_to_all_T ::
  "nat \<Rightarrow> Communicator \<Rightarrow> (string \<times> int) list \<Rightarrow> string list \<Rightarrow> world
     \<Rightarrow> (string list \<times> world) outcome" where
  "Communicator_all_to_all_T sizeof_T c peers sendbuf w =
     (case Communicator_size c w of
        Inl e \<Rightarrow> Inl e
      | Inr n \<Rightarrow>
          if length sendbuf \<noteq> to_size_t n then Inl (invalid_argument, w)
          else
            let recvbuf = replicate (length sendbuf) (value_init sizeof_T) in
            (case cpp_div (length sendbuf) (to_size_t n) of
               Inl e \<Rightarrow> Inl (e, w)
             | Inr sendshare \<Rightarrow>
                 (case cpp_div (length recvbuf) (to_size_t n) of
                    Inl e \<Rightarrow> Inl (e, w)
                  | Inr recvshare \<Rightarrow>
                      (case MPI_Alltoall w peers
                              (concat sendbuf) (to_int (sendshare * sizeof_T))
                              (concat recvbuf) (to_int (recvshare * sizeof_T)) (comm c) of
                         Inl e \<Rightarrow> Inl e
                       | Inr (bytes, w1) \<Rightarrow>
                           Inr (elements sizeof_T (length recvbuf) bytes, w1)))))"

text \<open>\<^verbatim>\<open>mpi::comm_world()\<close>, the factory: a duplicate of the world group.\<close>

definition comm_world :: "world \<Rightarrow> (Communicator \<times> world) outcome" where
  "comm_world w =
     (case MPI_Comm_dup w MPI_COMM_WORLD of
        Inl e \<Rightarrow> Inl e
      | Inr (h, w1) \<Rightarrow> Inr (Communicator_default\<lparr>comm := h\<rparr>, w1))"

section \<open>The network\<close>

text \<open>
  Modelled from the spec: the fabric between the processes. The messages a process has
  handed over between two of its states arrive at another process behind the messages
  that are already pending there.
\<close>

definition handed_over :: "world \<Rightarrow> world \<Rightarrow> message list" where
  "handed_over w w' = drop (length (departed w)) (departed w')"

definition deliver :: "message list \<Rightarrow> world \<Rightarrow> world" where
  "deliver ms w = w\<lparr>arrived := arrived w @ ms\<rparr>"

section \<open>Example states\<close>

text \<open>
  A group of two ranks. \<open>idle_world\<close> is rank 1 with nothing pending and
  \<open>sender_world\<close> is rank 0. \<open>example_message\<close> is the message of the demonstration
  driver: rank 0 sends the \<^verbatim>\<open>int\<close> 20 (four bytes, low byte first) to rank 1 with tag
  126, and \<open>example_world\<close> is rank 1 when it has arrived. \<open>matched_world\<close> and
  \<open>matched_request\<close> are the state and the Request that \<^verbatim>\<open>irecv\<close> returns there.
  \<open>pending_world\<close> holds a posted receive that nothing matches yet, with the Request
  that tracks it. Strings keep up to 15 characters inline. \<open>wide_message\<close> carries a
  value of 16 bytes; \<open>wide_world\<close> is rank 1 when it has arrived, and
  \<open>wide_matched_world\<close> and \<open>wide_request\<close> are what \<^verbatim>\<open>irecv\<close> returns there.
  \<open>sent_world\<close> and \<open>sent_request\<close> are what \<^verbatim>\<open>isend\<close> of the \<^verbatim>\<open>int\<close> 20 to rank 1
  returns at rank 0.
\<close>

definition example_group :: group where
  "example_group = \<lparr>ctx = 1, my_rank = 1, n_ranks = 2\<rparr>"

definition sender_group :: group where
  "sender_group = \<lparr>ctx = 1, my_rank = 0, n_ranks = 2\<rparr>"

definition twenty :: string where
  "twenty = [CHR 0x14, CHR 0x00, CHR 0x00, CHR 0x00]"

definition example_message :: message where
  "example_message =
     \<lparr>m_context = 1, m_source = 0, m_dest = 1, m_tag = 126,
      m_data = [CHR 0x14, CHR 0x00, CHR 0x00, CHR 0x00]\<rparr>"

definition idle_world :: world where
  "idle_world =
     \<lparr>comms = [Suc 0 \<mapsto> example_group], comm_counter = 1, requests = Map.empty,
      request_counter = 0, arrived = [], departed = [], calls = [],
      small_string = 15, heap_counter = 0\<rparr>"

definition sender_world :: world where
  "sender_world = idle_world\<lparr>comms := [Suc 0 \<mapsto> sender_group]\<rparr>"

definition example_world :: world where
  "example_world = idle_world\<lparr>arrived := [example_message]\<rparr>"

definition example_comm :: Communicator where
  "example_comm = \<lparr>comm = Suc 0\<rparr>"

definition pending_world :: world where
  "pending_world =
     idle_world\<lparr>requests :=
                  [Suc 0 \<mapsto> Recv_posted example_group MPI_ANY_SOURCE 126 3 Inline_of_request],
                request_counter := 1\<rparr>"

definition pending_request :: Request where
  "pending_request = \<lparr>request = Suc 0, buffer = zeros 3, buffer_at = Inline_of_request\<rparr>"

definition matched_world :: world where
  "matched_world =
     idle_world\<lparr>requests :=
                  [Suc 0 \<mapsto> Recv_matched (m_data example_message) 4 Inline_of_local],
                request_counter := 1,
                calls := [Call_Iprobe MPI_ANY_SOURCE 126, Call_Irecv 4 MPI_ANY_SOURCE 126]\<rparr>"

definition matched_request :: Request where
  "matched_request = \<lparr>request = Suc 0, buffer = zeros 4, buffer_at = Inline_of_request\<rparr>"

definition sent_world :: world where
  "sent_world =
     sender_world\<lparr>departed := [example_message],
                  requests := [Suc 0 \<mapsto> Send_buffered],
                  request_counter := 1,
                  calls := [Call_Isend 4 1 126]\<rparr>"

definition sent_request :: Request where
  "sent_request = \<lparr>request = Suc 0, buffer = twenty, buffer_at = Inline_of_request\<rparr>"

definition sixteen :: string where
  "sixteen = ''0123456789abcdef''"

definition wide_message :: message where
  "wide_message =
     \<lparr>m_context = 1, m_source = 0, m_dest = 1, m_tag = 127, m_data = sixteen\<rparr>"

definition wide_world :: world where
  "wide_world = idle_world\<lparr>arrived := [wide_message]\<rparr>"

definition wide_matched_world :: world where
  "wide_matched_world =
     idle_world\<lparr>requests := [Suc 0 \<mapsto> Recv_matched sixteen 16 (Heap 1)],
                request_counter := 1,
                heap_counter := 1,
                calls := [Call_Iprobe MPI_ANY_SOURCE 127, Call_Irecv 16 MPI_ANY_SOURCE 127]\<rparr>"

definition wide_request :: Request where
  "wide_request = \<lparr>request = Suc 0, buffer = zeros 16, buffer_at = Heap 1\<rparr>"

definition example_store :: store where
  "example_store = (\<lambda>a. Communicator_default)(0 := example_comm)"
section \<open>Basic facts\<close>

lemma called_simps:
  "comms (called e w) = comms w" "requests (called e w) = requests w"
  "arrived (called e w) = arrived w" "departed (called e w) = departed w"
  "calls (called e w) = calls w @ [e]" "comm_counter (called e w) = comm_counter w"
  "request_counter (called e w) = request_counter w"
  "small_string (called e w) = small_string w" "heap_counter (called e w) = heap_counter w"
  "group_of (called e w) = group_of w" "operation_of (called e w) = operation_of w"
  by (simp_all add: called_def group_of_def operation_of_def fun_eq_iff)

lemma heap_counter_simps:
  "group_of (w\<lparr>heap_counter := k\<rparr>) = group_of w"
  "operation_of (w\<lparr>heap_counter := k\<rparr>) = operation_of w"
  by (simp_all add: group_of_def operation_of_def fun_eq_iff)

lemma release_simps:
  "requests (release h w) h = None" "k \<noteq> h \<Longrightarrow> requests (release h w) k = requests w k"
  "operation_of (release h w) h = None" "calls (release h w) = calls w"
  "arrived (release h w) = arrived w"
  by (simp_all add: release_def operation_of_def)

lemma deliver_simps:
  "group_of (deliver ms w) = group_of w" "arrived (deliver ms w) = arrived w @ ms"
  "small_string (deliver ms w) = small_string w"
  by (simp_all add: deliver_def group_of_def fun_eq_iff)

lemma store_into_exact: "length d = length buf \<Longrightarrow> store_into buf d = d"
  by (simp add: store_into_def)

lemma length_zeros: "length (zeros n) = n"
  by (simp add: zeros_def)

lemma memcpy_value_init: "length src = n \<Longrightarrow> memcpy (value_init n) src n = src"
  by (simp add: memcpy_def value_init_def zeros_def)

lemma memcpy_zeros: "length src = n \<Longrightarrow> memcpy (zeros n) src n = src"
  by (simp add: memcpy_def zeros_def)

lemma find_append_None: "find P xs = None \<Longrightarrow> find P (xs @ ys) = find P ys"
  by (induction xs) (auto split: if_splits)

text \<open>A size below \<open>2 ^ 31\<close> passes to the transport unchanged, and comes back from a
  status unchanged.\<close>

lemma to_int_small: "n < 2 ^ 31 \<Longrightarrow> to_int n = int n"
  by (simp add: to_int_def)

lemma to_size_t_small: "0 \<le> i \<Longrightarrow> i < 2 ^ 64 \<Longrightarrow> to_size_t i = nat i"
  by (simp add: to_size_t_def)

lemma to_size_t_of_nat: "n < 2 ^ 31 \<Longrightarrow> to_size_t (int n) = n"
  by (simp add: to_size_t_def)

lemma std_string_small: "n < 2 ^ 31 \<Longrightarrow> std_string n = Inr (zeros n)"
  by (simp add: std_string_def max_size_def)

lemma Status_of_simps:
  "\<not> Status_is_null (Status_of s)" "Status_count (Status_of s) = MPI_Get_count s"
  "Status_source (Status_of s) = MPI_SOURCE s" "Status_tag (Status_of s) = MPI_TAG s"
  by (simp_all add: Status_is_null_def Status_of_def Status_count_def Status_source_def
      Status_tag_def)

lemma count_small: "n_bytes s < 2 ^ 31 \<Longrightarrow> MPI_Get_count s = int (n_bytes s)"
  by (simp add: MPI_Get_count_def)

lemma Status_default_null: "Status_is_null Status_default"
  by (simp add: Status_is_null_def Status_default_def)

lemma live_not_null: "group_of w (comm c) = Some g \<Longrightarrow> \<not> Communicator_is_null c"
  by (auto simp add: group_of_def Communicator_is_null_def split: if_splits)

lemma size_live:
  assumes "group_of w (comm c) = Some g"
  shows "Communicator_size c w = Inr (n_ranks g)"
  using assms live_not_null [OF assms] by (simp add: Communicator_size_def MPI_Comm_size_def)

lemma example_group_live: "group_of idle_world (comm example_comm) = Some example_group"
  and example_group_live': "group_of example_world (comm example_comm) = Some example_group"
  and wide_group_live: "group_of wide_world (comm example_comm) = Some example_group"
  by (simp_all add: group_of_def idle_world_def example_world_def wide_world_def
      example_comm_def MPI_COMM_NULL_def)

lemma example_message_matches:
  "find (matches example_group MPI_ANY_SOURCE 126) (arrived example_world) = Some example_message"
  by (simp add: example_world_def idle_world_def matches_def example_group_def
      example_message_def)

lemma wide_message_matches:
  "find (matches example_group MPI_ANY_SOURCE 127) (arrived wide_world) = Some wide_message"
  by (simp add: wide_world_def idle_world_def matches_def example_group_def
      wide_message_def)

lemma example_message_length:
  "length (m_data example_message) = 4" "length (m_data example_message) < 2 ^ 31"
  "length (m_data example_message) \<le> small_string example_world"
  "m_data example_message \<noteq> []"
  by (simp_all add: example_message_def example_world_def idle_world_def)

lemma wide_message_length:
  "length (m_data wide_message) = 16" "length (m_data wide_message) < 2 ^ 31"
  "small_string wide_world < length (m_data wide_message)"
  by (simp_all add: wide_message_def sixteen_def wide_world_def idle_world_def)

lemma pending_operation:
  "operation_of pending_world (request pending_request) =
     Some (Recv_posted example_group MPI_ANY_SOURCE 126 3 Inline_of_request)"
  by (simp add: operation_of_def pending_world_def pending_request_def MPI_REQUEST_NULL_def)

lemma pending_wait:
  "MPI_Wait pending_world (request pending_request) (buffer_at pending_request)
     (buffer pending_request) = Inl (never_returns, pending_world)"
  by (simp add: MPI_Wait_def pending_operation)
     (simp add: pending_request_def MPI_REQUEST_NULL_def pending_world_def idle_world_def)

lemma matched_operation:
  "operation_of matched_world (request matched_request) =
     Some (Recv_matched (m_data example_message) 4 Inline_of_local)"
  by (simp add: operation_of_def matched_world_def matched_request_def MPI_REQUEST_NULL_def)

lemma wide_operation:
  "operation_of wide_matched_world (request wide_request) =
     Some (Recv_matched sixteen 16 (Heap 1))"
  by (simp add: operation_of_def wide_matched_world_def wide_request_def MPI_REQUEST_NULL_def)

section \<open>Probing and the null states\<close>

lemma probe_returns:
  assumes "group_of w (comm c) = Some g"
    and "find (matches g source tag) (arrived w) = Some m"
  shows "Communicator_probe c source tag w =
           Inr (Status_of (status_of m), called (Call_Probe source tag) w)"
  using assms by (simp add: Communicator_probe_def MPI_Probe_def)

lemma iprobe_nothing:
  assumes "group_of w (comm c) = Some g"
    and "find (matches g source tag) (arrived w) = None"
  shows "Communicator_iprobe c source tag w =
           Inr (Status_default, called (Call_Iprobe source tag) w)"
  using assms by (simp add: Communicator_iprobe_def MPI_Iprobe_def)

lemma iprobe_something:
  assumes "group_of w (comm c) = Some g"
    and "find (matches g source tag) (arrived w) = Some m"
  shows "Communicator_iprobe c source tag w =
           Inr (Status_of (status_of m), called (Call_Iprobe source tag) w)"
  using assms by (simp add: Communicator_iprobe_def MPI_Iprobe_def)

text \<open>
  C9. The accessors of the null states return sentinels and do not fail. On a null
  Communicator \<^verbatim>\<open>size()\<close> returns 0 and \<^verbatim>\<open>rank()\<close> returns -1. On a null Status
  \<^verbatim>\<open>count()\<close>, \<^verbatim>\<open>source()\<close> and \<^verbatim>\<open>tag()\<close> return 0, -1 and -1. On a live
  communicator with no matching message pending, \<^verbatim>\<open>iprobe\<close> returns such a null
  Status.
\<close>

theorem null_accessors_return_sentinels:
  "(Communicator_is_null c \<longrightarrow>
      Communicator_size c w = Inr 0 \<and> Communicator_rank c w = Inr (- 1)) \<and>
   (Status_is_null st \<longrightarrow>
      Status_count st = 0 \<and> Status_source st = - 1 \<and> Status_tag st = - 1) \<and>
   (group_of w (comm c) = Some g \<and> find (matches g source tag) (arrived w) = None \<longrightarrow>
      (\<exists>st' w'. Communicator_iprobe c source tag w = Inr (st', w') \<and> Status_is_null st' \<and>
         Status_count st' = 0 \<and> Status_source st' = - 1 \<and> Status_tag st' = - 1))"
  by (simp add: Communicator_size_def Communicator_rank_def Status_count_def Status_source_def
      Status_tag_def iprobe_nothing Status_default_null)

theorem null_accessors_return_sentinels_witness:
  "Communicator_is_null Communicator_default \<and>
   Communicator_size Communicator_default idle_world = Inr 0 \<and>
   Communicator_rank Communicator_default idle_world = Inr (- 1) \<and>
   Status_is_null Status_default \<and> Status_count Status_default = 0 \<and>
   Status_source Status_default = - 1 \<and> Status_tag Status_default = - 1 \<and>
   group_of idle_world (comm example_comm) = Some example_group \<and>
   find (matches example_group MPI_ANY_SOURCE MPI_ANY_TAG) (arrived idle_world) = None \<and>
   (\<exists>st' w'. Communicator_iprobe example_comm MPI_ANY_SOURCE MPI_ANY_TAG idle_world =
        Inr (st', w') \<and>
      Status_is_null st' \<and> Status_count st' = 0 \<and> Status_source st' = - 1 \<and>
      Status_tag st' = - 1)"
proof -
  have n: "Communicator_is_null Communicator_default"
    by (simp add: Communicator_is_null_def Communicator_default_def)
  have f: "find (matches example_group MPI_ANY_SOURCE MPI_ANY_TAG) (arrived idle_world) = None"
    by (simp add: idle_world_def)
  show ?thesis
    using n Status_default_null example_group_live f
      null_accessors_return_sentinels [of Communicator_default idle_world Status_default]
      null_accessors_return_sentinels [of example_comm idle_world Status_default
        example_group MPI_ANY_SOURCE MPI_ANY_TAG]
    by simp
qed

section \<open>The blocking receive\<close>

lemma recv_something:
  assumes "group_of w (comm c) = Some g"
    and "find (matches g source tag) (arrived w) = Some m"
    and "length (m_data m) < 2 ^ 31"
  shows "Communicator_recv c source tag w =
           Inr (m_data m,
                called (Call_Recv (int (length (m_data m))) source tag)
                  ((called (Call_Probe source tag) w)\<lparr>arrived := remove1 m (arrived w)\<rparr>))"
  using assms
  by (simp add: Communicator_recv_def probe_returns Status_of_simps count_small status_of_def
      to_size_t_of_nat std_string_small to_int_small MPI_Recv_def
      called_simps length_zeros store_into_exact)

text \<open>A message of \<open>2 ^ 31\<close> bytes or more has no \<^verbatim>\<open>int\<close> count: the status reports
  \<^verbatim>\<open>MPI_UNDEFINED\<close>, and the string of that many characters cannot be made.\<close>

lemma recv_too_long:
  assumes "group_of w (comm c) = Some g"
    and "find (matches g source tag) (arrived w) = Some m"
    and "2 ^ 31 \<le> length (m_data m)"
  shows "Communicator_recv c source tag w =
           Inl (length_error, called (Call_Probe source tag) w)"
  using assms
  by (simp add: Communicator_recv_def probe_returns Status_of_simps MPI_Get_count_def
      status_of_def MPI_UNDEFINED_def to_size_t_def std_string_def max_size_def)



section \<open>The non-blocking receive\<close>

text \<open>
  What \<^verbatim>\<open>irecv\<close> returns on a live communicator, by whether a matching message has
  arrived, and by whether the local string keeps its characters inline. Messages have
  fewer than \<open>2 ^ 31\<close> bytes, so that their byte count is an \<^verbatim>\<open>int\<close>.
\<close>

lemma irecv_nothing:
  assumes "group_of w (comm c) = Some g"
    and "find (matches g source tag) (arrived w) = None"
  shows "Communicator_irecv c source tag w =
           Inr (Request_default, called (Call_Iprobe source tag) w)"
  using assms by (simp add: Communicator_irecv_def iprobe_nothing Status_default_null)

lemma irecv_short:
  assumes "group_of w (comm c) = Some g"
    and "find (matches g source tag) (arrived w) = Some m"
    and "length (m_data m) < 2 ^ 31"
    and "length (m_data m) \<le> small_string w"
  shows "Communicator_irecv c source tag w =
           Inr (\<lparr>request = Suc (request_counter w), buffer = zeros (length (m_data m)),
                 buffer_at = Inline_of_request\<rparr>,
                called (Call_Irecv (int (length (m_data m))) source tag)
                  ((called (Call_Iprobe source tag) w)
                     \<lparr>arrived := remove1 m (arrived w),
                      requests := (requests w)(Suc (request_counter w) \<mapsto>
                         Recv_matched (m_data m) (length (m_data m)) Inline_of_local),
                      request_counter := Suc (request_counter w)\<rparr>))"
  using assms
  by (simp add: Communicator_irecv_def iprobe_something Status_of_simps count_small
      status_of_def to_size_t_of_nat std_string_small to_int_small string_place_def
      moved_string_def MPI_Irecv_def called_simps length_zeros Request_default_def Let_def)

lemma irecv_long:
  assumes "group_of w (comm c) = Some g"
    and "find (matches g source tag) (arrived w) = Some m"
    and "length (m_data m) < 2 ^ 31"
    and "small_string w < length (m_data m)"
  shows "Communicator_irecv c source tag w =
           Inr (\<lparr>request = Suc (request_counter w), buffer = zeros (length (m_data m)),
                 buffer_at = Heap (Suc (heap_counter w))\<rparr>,
                called (Call_Irecv (int (length (m_data m))) source tag)
                  ((called (Call_Iprobe source tag) w)
                     \<lparr>heap_counter := Suc (heap_counter w),
                      arrived := remove1 m (arrived w),
                      requests := (requests w)(Suc (request_counter w) \<mapsto>
                         Recv_matched (m_data m) (length (m_data m))
                           (Heap (Suc (heap_counter w)))),
                      request_counter := Suc (request_counter w)\<rparr>))"
  using assms
  by (simp add: Communicator_irecv_def iprobe_something Status_of_simps count_small
      status_of_def to_size_t_of_nat std_string_small to_int_small string_place_def
      moved_string_def MPI_Irecv_def called_simps length_zeros Request_default_def Let_def
      heap_counter_simps)

text \<open>In both cases \<^verbatim>\<open>irecv\<close> probes first, posts one receive with the probed count, and
  returns a Request that is not null and whose buffer has the probed size. The receive
  was posted on the local string: its place is the heap block that the Request's
  buffer then owns when the message is long, and the inline storage of the local when
  it is short.\<close>

lemma irecv_something:
  assumes "group_of w (comm c) = Some g"
    and "find (matches g source tag) (arrived w) = Some m"
    and "length (m_data m) < 2 ^ 31"
  shows "\<exists>r w'. Communicator_irecv c source tag w = Inr (r, w') \<and>
           \<not> Request_is_null r \<and>
           buffer r = zeros (length (m_data m)) \<and>
           buffer_at r = (if length (m_data m) \<le> small_string w then Inline_of_request
                          else Heap (Suc (heap_counter w))) \<and>
           operation_of w' (request r) =
             Some (Recv_matched (m_data m) (length (m_data m))
                     (if length (m_data m) \<le> small_string w then Inline_of_local
                      else Heap (Suc (heap_counter w)))) \<and>
           arrived w' = remove1 m (arrived w) \<and>
           calls w' = calls w @
             [Call_Iprobe source tag, Call_Irecv (int (length (m_data m))) source tag]"
proof (cases "length (m_data m) \<le> small_string w")
  case True
  show ?thesis
    using True
    by (simp add: irecv_short [OF assms True] Request_is_null_def MPI_REQUEST_NULL_def
        operation_of_def called_simps)
next
  case False
  then have l: "small_string w < length (m_data m)" by simp
  show ?thesis
    using False
    by (simp add: irecv_long [OF assms l] Request_is_null_def MPI_REQUEST_NULL_def
        operation_of_def called_simps)
qed

lemma irecv_example:
  "Communicator_irecv example_comm MPI_ANY_SOURCE 126 example_world =
     Inr (matched_request, matched_world)"
  by (simp add: irecv_short [OF example_group_live' example_message_matches
        example_message_length(2,3)])
     (simp add: matched_request_def matched_world_def example_world_def idle_world_def
        example_message_def called_def eval_nat_numeral)

lemma irecv_wide_example:
  "Communicator_irecv example_comm MPI_ANY_SOURCE 127 wide_world =
     Inr (wide_request, wide_matched_world)"
  by (simp add: irecv_long [OF wide_group_live wide_message_matches wide_message_length(2,3)])
     (simp add: wide_request_def wide_matched_world_def wide_world_def idle_world_def
        wide_message_def sixteen_def called_def eval_nat_numeral)

subsection \<open>Completion\<close>

text \<open>
  Waiting on a matched receive stores the message where the receive was posted. The
  caller sees the bytes when that is where its own string is; when it was the inline
  storage of a local string, the wait writes to storage that is gone.
\<close>

lemma wait_matched:
  assumes "operation_of w h = Some (Recv_matched d k p)" and "length d \<le> k"
    and "p \<noteq> Inline_of_local"
  shows "MPI_Wait w h p buf =
           Inr (MPI_REQUEST_NULL, store_into buf d, called (Call_Wait h) (release h w))"
  using assms
  by (auto simp add: MPI_Wait_def operation_of_def complete_def store_into_def
      split: if_splits)

lemma wait_dangling:
  assumes "operation_of w h = Some (Recv_matched d k Inline_of_local)" and "length d \<le> k"
    and "d \<noteq> []"
  shows "MPI_Wait w h p buf = Inl (use_after_scope, w)"
  using assms
  by (auto simp add: MPI_Wait_def operation_of_def complete_def split: if_splits)

lemma wait_returns_logged:
  assumes "MPI_Wait w h p buf = Inr (h', b, w1)"
  shows "calls w1 = calls w @ [Call_Wait h] \<and> h' = MPI_REQUEST_NULL"
proof (cases "h = MPI_REQUEST_NULL")
  case True
  with assms show ?thesis by (auto simp add: MPI_Wait_def called_simps)
next
  case False
  with assms obtain op where o: "operation_of w h = Some op"
    by (auto simp add: MPI_Wait_def split: option.splits)
  show ?thesis
  proof (cases op)
    case Send_buffered
    with assms False o show ?thesis
      by (auto simp add: MPI_Wait_def called_simps release_simps)
  next
    case (Recv_matched d k q)
    with assms False o show ?thesis
      by (auto simp add: MPI_Wait_def called_simps release_simps
          split: if_splits sum.splits)
  next
    case (Recv_posted g s t k q)
    with assms False o show ?thesis
      by (auto simp add: MPI_Wait_def called_simps release_simps
          split: if_splits option.splits sum.splits)
  next
    case Cancelled
    with assms False o show ?thesis
      by (auto simp add: MPI_Wait_def called_simps release_simps)
  qed
qed


lemma get_dangling:
  assumes "operation_of w (request r) = Some (Recv_matched d k Inline_of_local)"
    and "length d \<le> k" and "d \<noteq> []"
  shows "Request_get r w = Inl (use_after_scope, w)"
  by (simp add: Request_get_def wait_dangling [OF assms])

text \<open>
  C8, at the failing input. The example message of four bytes is pending. \<^verbatim>\<open>irecv\<close>
  probes, makes a local string of four zero bytes, which it keeps inline, and posts the
  receive on it: the place the transport is to store to is the inline storage of that
  local. The Request it returns is not null and its buffer has four bytes, but they are
  kept in the inline storage of the Request's own buffer member: the receive was not
  started into the buffer the Request owns, and the storage it was started into is
  gone when \<^verbatim>\<open>irecv\<close> has returned. Completing the request then writes there.
\<close>

theorem irecv_posts_on_local_string:
  "Communicator_irecv example_comm MPI_ANY_SOURCE 126 example_world =
     Inr (matched_request, matched_world) \<and>
   \<not> Request_is_null matched_request \<and>
   buffer matched_request = zeros 4 \<and>
   buffer_at matched_request = Inline_of_request \<and>
   operation_of matched_world (request matched_request) =
     Some (Recv_matched (m_data example_message) 4 Inline_of_local) \<and>
   calls matched_world = [Call_Iprobe MPI_ANY_SOURCE 126, Call_Irecv 4 MPI_ANY_SOURCE 126] \<and>
   Request_get matched_request matched_world = Inl (use_after_scope, matched_world)"
proof -
  have "Request_get matched_request matched_world = Inl (use_after_scope, matched_world)"
    by (rule get_dangling [OF matched_operation]) (simp_all add: example_message_def)
  then show ?thesis
    by (simp add: irecv_example matched_operation)
       (simp add: matched_request_def matched_world_def Request_is_null_def
          MPI_REQUEST_NULL_def)
qed

section \<open>Typed extraction\<close>

text \<open>
  The size check of \<^verbatim>\<open>get<T>\<close> comes first in both programs, and a matched receive
  of the right size that was posted on the Request's buffer yields the bytes of its
  message.
\<close>

lemma get_T_wrong_size:
  "length (buffer r) \<noteq> n \<Longrightarrow> Request_get_T n r w = Inl (logic_error, w)"
  by (simp add: Request_get_T_def)

lemma get_T_part_000_wrong_size:
  "length (buffer r) \<noteq> n \<Longrightarrow> Request_get_T_part_000 n r w = Inl (logic_error, w)"
  by (simp add: Request_get_T_part_000_def)

lemma get_T_matched:
  assumes "operation_of w (request r) = Some (Recv_matched d k (buffer_at r))"
    and "length d \<le> k" and "buffer_at r \<noteq> Inline_of_local"
    and "length (buffer r) = n" and "length d = n"
  shows "Request_get_T n r w =
           Inr (d, r\<lparr>request := MPI_REQUEST_NULL, buffer := d\<rparr>,
                called (Call_Wait (request r)) (release (request r) w))"
  using assms
  by (simp add: Request_get_T_def wait_matched store_into_exact memcpy_value_init Let_def)

lemma get_T_dangling:
  assumes "operation_of w (request r) = Some (Recv_matched d k Inline_of_local)"
    and "length d \<le> k" and "d \<noteq> []" and "length (buffer r) = n"
  shows "Request_get_T n r w = Inl (use_after_scope, w)"
  using assms(4) by (simp add: Request_get_T_def wait_dangling [OF assms(1,2,3)])

lemma get_T_returned:
  assumes "Request_get_T n r w = Inr (v, r', w')"
  shows "length (buffer r) = n \<and> calls w' = calls w @ [Call_Wait (request r)] \<and>
         Request_is_null r' \<and> v = take n (buffer r')"
proof -
  from assms have l: "length (buffer r) = n"
    by (simp add: Request_get_T_def split: if_splits)
  with assms obtain h b where
    w: "MPI_Wait w (request r) (buffer_at r) (buffer r) = Inr (h, b, w')"
    and r': "r' = r\<lparr>request := h, buffer := b\<rparr>" and v: "v = take n b"
    by (cases "MPI_Wait w (request r) (buffer_at r) (buffer r)")
       (auto simp add: Request_get_T_def memcpy_def value_init_def zeros_def Let_def)
  from wait_returns_logged [OF w] l r' v show ?thesis
    by (simp add: Request_is_null_def)
qed

lemma get_T_part_000_returned:
  assumes "Request_get_T_part_000 n r w = Inr (v, r', w')"
  shows "length (buffer r) = n \<and> calls w' = calls w @ [Call_Wait (request r)] \<and>
         Request_is_null r' \<and> v = take n (buffer r')"
proof -
  from assms have l: "length (buffer r) = n"
    by (simp add: Request_get_T_part_000_def split: if_splits)
  with assms obtain h b where
    w: "MPI_Wait w (request r) (buffer_at r) (buffer r) = Inr (h, b, w')"
    and r': "r' = r\<lparr>request := h, buffer := b\<rparr>" and v: "v = take n b"
    by (cases "MPI_Wait w (request r) (buffer_at r) (buffer r)")
       (auto simp add: Request_get_T_part_000_def Request_wait_part_000_def throw_if_null_def
          memcpy_def value_init_def zeros_def Let_def split: if_splits)
  from wait_returns_logged [OF w] l r' v show ?thesis
    by (simp add: Request_is_null_def)
qed

lemma get_T_right_size:
  assumes "length (buffer r) = n"
  shows "Request_get_T n r w =
        (case MPI_Wait w (request r) (buffer_at r) (buffer r) of
           Inl e \<Rightarrow> Inl e
         | Inr (h, b, w1) \<Rightarrow> Inr (take n b, r\<lparr>request := h, buffer := b\<rparr>, w1))"
    and "Request_get_T_part_000 n r w =
        (if Request_is_null r then Inl (logic_error, w)
         else case MPI_Wait w (request r) (buffer_at r) (buffer r) of
           Inl e \<Rightarrow> Inl e
         | Inr (h, b, w1) \<Rightarrow> Inr (take n b, r\<lparr>request := h, buffer := b\<rparr>, w1))"
  using assms
  by (auto simp add: Request_get_T_def Request_get_T_part_000_def Request_wait_part_000_def
      throw_if_null_def memcpy_def value_init_def zeros_def Let_def split: sum.splits)


lemma recv_T_right_size:
  assumes "group_of w (comm c) = Some g"
    and "find (matches g source tag) (arrived w) = Some m"
    and "length (m_data m) < 2 ^ 31"
    and "length (m_data m) = n"
  shows "\<exists>w'. Communicator_recv_T n c source tag w = Inr (m_data m, w')"
  using assms(4)
  by (simp add: Communicator_recv_T_def recv_something [OF assms(1,2,3)] memcpy_value_init)


text \<open>\<^verbatim>\<open>irecv\<close> followed by \<^verbatim>\<open>get<T>\<close> for a message of \<^verbatim>\<open>sizeof(T)\<close> bytes: the bytes
  of the message when the string is long enough to live on the heap, and a write to
  storage that is gone when it is short.\<close>

lemma irecv_get_T_long:
  assumes "group_of w (comm c) = Some g"
    and "find (matches g source tag) (arrived w) = Some m"
    and "length (m_data m) < 2 ^ 31"
    and "length (m_data m) = n" and "small_string w < n"
  shows "\<exists>r w1 r' w2. Communicator_irecv c source tag w = Inr (r, w1) \<and>
           Request_get_T n r w1 = Inr (m_data m, r', w2)"
proof -
  from irecv_something [OF assms(1,2,3)] assms(4,5) obtain r w1 where
    i: "Communicator_irecv c source tag w = Inr (r, w1)"
    and b: "buffer r = zeros n" and a: "buffer_at r = Heap (Suc (heap_counter w))"
    and o: "operation_of w1 (request r) =
              Some (Recv_matched (m_data m) n (Heap (Suc (heap_counter w))))"
    by auto
  have "Request_get_T n r w1 =
          Inr (m_data m, r\<lparr>request := MPI_REQUEST_NULL, buffer := m_data m\<rparr>,
               called (Call_Wait (request r)) (release (request r) w1))"
    by (rule get_T_matched [where k = n]) (simp_all add: o a b assms(4) length_zeros)
  with i show ?thesis by blast
qed

lemma irecv_get_T_short:
  assumes "group_of w (comm c) = Some g"
    and "find (matches g source tag) (arrived w) = Some m"
    and "length (m_data m) < 2 ^ 31"
    and "length (m_data m) = n" and "0 < n" and "n \<le> small_string w"
  shows "\<exists>r w1. Communicator_irecv c source tag w = Inr (r, w1) \<and>
           Request_get_T n r w1 = Inl (use_after_scope, w1)"
proof -
  from irecv_something [OF assms(1,2,3)] assms(4,6) obtain r w1 where
    i: "Communicator_irecv c source tag w = Inr (r, w1)"
    and b: "buffer r = zeros n"
    and o: "operation_of w1 (request r) = Some (Recv_matched (m_data m) n Inline_of_local)"
    by auto
  from assms(4,5) have ne: "m_data m \<noteq> []" by auto
  have "Request_get_T n r w1 = Inl (use_after_scope, w1)"
    by (rule get_T_dangling [OF o _ ne]) (simp_all add: assms(4) b length_zeros)
  with i show ?thesis by blast
qed



text \<open>
  C3, as amended. \<^verbatim>\<open>get<T>\<close> validates first: when the size of the owned buffer differs
  from \<^verbatim>\<open>sizeof(T)\<close> it raises a logic error at once, whatever the state of the tracked
  operation, in the state it was called in: no wait has happened. Only when the sizes
  agree does it wait; a failure of the wait is the failure of the call, and when the
  wait returns, the value is made of the first \<^verbatim>\<open>sizeof(T)\<close> bytes of the buffer. In
  the second program the wait refuses a null request with a logic error. So whenever
  \<^verbatim>\<open>get<T>\<close> returns a value, the size check had passed, the wait was its one transport
  call, and the request is null afterwards.
\<close>

theorem get_T_validates_before_waiting:
  "(length (buffer r) \<noteq> n \<longrightarrow>
      Request_get_T n r w = Inl (logic_error, w) \<and>
      Request_get_T_part_000 n r w = Inl (logic_error, w)) \<and>
   (length (buffer r) = n \<longrightarrow>
      Request_get_T n r w =
        (case MPI_Wait w (request r) (buffer_at r) (buffer r) of
           Inl e \<Rightarrow> Inl e
         | Inr (h, b, w1) \<Rightarrow> Inr (take n b, r\<lparr>request := h, buffer := b\<rparr>, w1)) \<and>
      Request_get_T_part_000 n r w =
        (if Request_is_null r then Inl (logic_error, w)
         else case MPI_Wait w (request r) (buffer_at r) (buffer r) of
           Inl e \<Rightarrow> Inl e
         | Inr (h, b, w1) \<Rightarrow> Inr (take n b, r\<lparr>request := h, buffer := b\<rparr>, w1))) \<and>
   (\<forall>v r' w'. Request_get_T n r w = Inr (v, r', w') \<or>
              Request_get_T_part_000 n r w = Inr (v, r', w') \<longrightarrow>
      length (buffer r) = n \<and> calls w' = calls w @ [Call_Wait (request r)] \<and>
      Request_is_null r' \<and> v = take n (buffer r'))"
proof (intro conjI impI allI)
  assume "length (buffer r) \<noteq> n"
  then show "Request_get_T n r w = Inl (logic_error, w)"
    and "Request_get_T_part_000 n r w = Inl (logic_error, w)"
    by (simp_all add: get_T_wrong_size get_T_part_000_wrong_size)
next
  assume l: "length (buffer r) = n"
  show "Request_get_T n r w =
        (case MPI_Wait w (request r) (buffer_at r) (buffer r) of
           Inl e \<Rightarrow> Inl e
         | Inr (h, b, w1) \<Rightarrow> Inr (take n b, r\<lparr>request := h, buffer := b\<rparr>, w1))"
    by (rule get_T_right_size(1) [OF l])
  show "Request_get_T_part_000 n r w =
        (if Request_is_null r then Inl (logic_error, w)
         else case MPI_Wait w (request r) (buffer_at r) (buffer r) of
           Inl e \<Rightarrow> Inl e
         | Inr (h, b, w1) \<Rightarrow> Inr (take n b, r\<lparr>request := h, buffer := b\<rparr>, w1))"
    by (rule get_T_right_size(2) [OF l])
next
  fix v r' w'
  assume a: "Request_get_T n r w = Inr (v, r', w') \<or>
             Request_get_T_part_000 n r w = Inr (v, r', w')"
  then have "length (buffer r) = n \<and> calls w' = calls w @ [Call_Wait (request r)] \<and>
      Request_is_null r' \<and> v = take n (buffer r')"
    using get_T_returned get_T_part_000_returned by blast
  then show "length (buffer r) = n" and "calls w' = calls w @ [Call_Wait (request r)]"
    and "Request_is_null r'" and "v = take n (buffer r')"
    by simp_all
qed

theorem get_T_validates_before_waiting_witness:
  "length (buffer pending_request) \<noteq> 4 \<and>
   Request_get_T 4 pending_request pending_world = Inl (logic_error, pending_world) \<and>
   Request_get_T_part_000 4 pending_request pending_world =
     Inl (logic_error, pending_world) \<and>
   Communicator_irecv example_comm MPI_ANY_SOURCE 127 wide_world =
     Inr (wide_request, wide_matched_world) \<and>
   length (buffer wide_request) = 16 \<and>
   Request_get_T 16 wide_request wide_matched_world =
     Inr (sixteen,
          \<lparr>request = MPI_REQUEST_NULL, buffer = sixteen, buffer_at = Heap 1\<rparr>,
          called (Call_Wait 1) (release 1 wide_matched_world)) \<and>
   Request_get_T_part_000 16 wide_request wide_matched_world =
     Request_get_T 16 wide_request wide_matched_world \<and>
   calls (called (Call_Wait 1) (release 1 wide_matched_world)) =
     calls wide_matched_world @ [Call_Wait (request wide_request)]"
proof -
  have l: "length (buffer pending_request) \<noteq> 4" "length (buffer wide_request) = 16"
    by (simp_all add: pending_request_def wide_request_def zeros_def)
  have s: "length sixteen = 16" "take 16 sixteen = sixteen"
    by (simp_all add: sixteen_def)
  have "MPI_Wait wide_matched_world (request wide_request) (Heap 1) (buffer wide_request) =
     Inr (MPI_REQUEST_NULL, store_into (buffer wide_request) sixteen,
          called (Call_Wait (request wide_request))
            (release (request wide_request) wide_matched_world))"
    by (rule wait_matched [OF wide_operation]) (simp_all add: s)
  then have w: "MPI_Wait wide_matched_world (request wide_request) (buffer_at wide_request)
       (buffer wide_request) =
     Inr (MPI_REQUEST_NULL, sixteen, called (Call_Wait 1) (release 1 wide_matched_world))"
    using store_into_exact [of sixteen "buffer wide_request"] l(2) s(1)
    by (simp add: wide_request_def)
  have nn: "\<not> Request_is_null wide_request"
    by (simp add: Request_is_null_def wide_request_def MPI_REQUEST_NULL_def)
  note t1 = get_T_validates_before_waiting [of pending_request 4 pending_world, THEN conjunct1]
  note t2 = get_T_validates_before_waiting [of wide_request 16 wide_matched_world,
      THEN conjunct2, THEN conjunct1]
  note t3 = get_T_validates_before_waiting [of wide_request 16 wide_matched_world,
      THEN conjunct2, THEN conjunct2, rule_format]
  from t1 l have a: "Request_get_T 4 pending_request pending_world = Inl (logic_error, pending_world)"
    "Request_get_T_part_000 4 pending_request pending_world = Inl (logic_error, pending_world)"
    by simp_all
  from t2 l nn have b: "Request_get_T 16 wide_request wide_matched_world =
     Inr (sixteen,
          wide_request\<lparr>request := MPI_REQUEST_NULL, buffer := sixteen\<rparr>,
          called (Call_Wait 1) (release 1 wide_matched_world))"
    and b': "Request_get_T_part_000 16 wide_request wide_matched_world =
      Request_get_T 16 wide_request wide_matched_world"
    by (simp_all add: w s)
  from t3 [OF disjI1, OF b]
  have c: "calls (called (Call_Wait 1) (release 1 wide_matched_world)) =
     calls wide_matched_world @ [Call_Wait (request wide_request)]"
    by simp
  from b have b2: "Request_get_T 16 wide_request wide_matched_world =
     Inr (sixteen,
          \<lparr>request = MPI_REQUEST_NULL, buffer = sixteen, buffer_at = Heap 1\<rparr>,
          called (Call_Wait 1) (release 1 wide_matched_world))"
    by (simp add: wide_request_def)
  from l a b2 b' c irecv_wide_example show ?thesis by simp
qed

text \<open>
  C3 as stated fails. \<^verbatim>\<open>irecv\<close> returns a Request for the four bytes of the example
  message; \<^verbatim>\<open>get<T>\<close> for a type of eight bytes then raises the logic error in the
  very state \<^verbatim>\<open>irecv\<close> left: no wait has been called and the handle is still live,
  in both programs. And on a request whose receive is still unmatched, where waiting
  does not return, \<^verbatim>\<open>get<T>\<close> with a buffer of the wrong size returns the logic
  error. The validation is not preceded by the wait.
\<close>

theorem get_T_waits_first_counterexample:
  "Communicator_irecv example_comm MPI_ANY_SOURCE 126 example_world =
     Inr (matched_request, matched_world) \<and>
   Request_get_T 8 matched_request matched_world = Inl (logic_error, matched_world) \<and>
   Request_get_T_part_000 8 matched_request matched_world = Inl (logic_error, matched_world) \<and>
   calls matched_world = [Call_Iprobe MPI_ANY_SOURCE 126, Call_Irecv 4 MPI_ANY_SOURCE 126] \<and>
   operation_of matched_world (request matched_request) =
     Some (Recv_matched (m_data example_message) 4 Inline_of_local) \<and>
   MPI_Wait pending_world (request pending_request) (buffer_at pending_request)
     (buffer pending_request) = Inl (never_returns, pending_world) \<and>
   Request_get_T 4 pending_request pending_world = Inl (logic_error, pending_world) \<and>
   Request_get_T_part_000 4 pending_request pending_world =
     Inl (logic_error, pending_world)"
proof -
  have l: "length (buffer matched_request) \<noteq> 8" "length (buffer pending_request) \<noteq> 4"
    by (simp_all add: matched_request_def pending_request_def zeros_def)
  have c: "calls matched_world =
             [Call_Iprobe MPI_ANY_SOURCE 126, Call_Irecv 4 MPI_ANY_SOURCE 126]"
    by (simp add: matched_world_def)
  show ?thesis
    using l c
    by (simp add: irecv_example matched_operation pending_wait get_T_wrong_size
        get_T_part_000_wrong_size)
qed

section \<open>The round trip\<close>

text \<open>
  What the typed sends hand over, for a value of fewer than \<open>2 ^ 31\<close> bytes, and that
  the handed-over message is the first match at a receiver where nothing matching was
  pending.
\<close>

lemma send_T_returns:
  assumes "group_of w (comm c) = Some g" and "addressable g dest tag" and "length v = n"
    and "n < 2 ^ 31"
  shows "Communicator_send_T n c v dest tag w =
           Inr (called (Call_Send (int n) dest tag)
                  (w\<lparr>departed := departed w @ [outgoing g v n dest tag]\<rparr>))"
  using assms
  by (simp add: Communicator_send_T_def Communicator_send_def MPI_Send_def memcpy_zeros
      to_int_small Let_def)

lemma isend_T_returns:
  assumes "group_of w (comm c) = Some g" and "addressable g dest tag" and "length v = n"
    and "n < 2 ^ 31"
  shows "\<exists>rs w'. Communicator_isend_T n c v dest tag w = Inr (rs, w') \<and>
           \<not> Request_is_null rs \<and> buffer rs = v \<and>
           operation_of w' (request rs) = Some Send_buffered \<and>
           handed_over w w' = [outgoing g v n dest tag] \<and>
           calls w' = calls w @ [Call_Isend (int n) dest tag]"
  using assms
  by (simp add: Communicator_isend_T_def Communicator_isend_def MPI_Isend_def memcpy_zeros
      to_int_small Let_def Request_default_def string_place_def heap_counter_simps
      Request_is_null_def MPI_REQUEST_NULL_def operation_of_def handed_over_def called_simps)

lemma isend_example:
  "Communicator_isend_T 4 example_comm twenty 1 126 sender_world =
     Inr (sent_request, sent_world)"
  by (simp add: Communicator_isend_T_def Communicator_isend_def MPI_Isend_def memcpy_def
      zeros_def to_int_def Let_def Request_default_def string_place_def group_of_def
      sender_world_def idle_world_def example_comm_def MPI_COMM_NULL_def addressable_def
      sender_group_def twenty_def sent_request_def sent_world_def called_def outgoing_def
      example_message_def MPI_REQUEST_NULL_def)

lemma arrives_first:
  assumes "find (matches gr (my_rank gs) tag) (arrived wr) = None"
    and "ctx gs = ctx gr" and "length v = n"
  shows "find (matches gr (my_rank gs) tag)
           (arrived (deliver [outgoing gs v n (my_rank gr) tag] wr)) =
         Some (outgoing gs v n (my_rank gr) tag)"
  using assms by (simp add: deliver_simps find_append_None matches_def outgoing_def)

text \<open>
  The round trip of a value \<open>v\<close> of a trivially copyable type, that is of \<^verbatim>\<open>sizeof(T)\<close>
  bytes, fewer than \<open>2 ^ 31\<close>. The sender and the receiver hold live communicators of
  the same group, the destination and the tag are valid, and no message of this sender
  with this tag is pending at the receiver. The typed blocking send returns, and once
  the network has delivered what it handed over, the typed blocking \<^verbatim>\<open>recv<T>\<close> at the
  receiver returns \<open>v\<close> byte for byte.
\<close>

lemma blocking_round_trip:
  assumes "length v = n" and "n < 2 ^ 31"
    and "group_of ws (comm cs) = Some gs" and "group_of wr (comm cr) = Some gr"
    and "ctx gs = ctx gr" and "addressable gs (my_rank gr) tag"
    and "find (matches gr (my_rank gs) tag) (arrived wr) = None"
  shows "\<exists>ws'. Communicator_send_T n cs v (my_rank gr) tag ws = Inr ws' \<and>
            (\<exists>wr'. Communicator_recv_T n cr (my_rank gs) tag
                      (deliver (handed_over ws ws') wr) = Inr (v, wr'))"
proof -
  let ?m = "outgoing gs v n (my_rank gr) tag"
  let ?wr = "deliver [?m] wr"
  have d: "m_data ?m = v" using assms(1) by (simp add: outgoing_def)
  have g: "group_of ?wr (comm cr) = Some gr" by (simp add: deliver_simps assms(4))
  have f: "find (matches gr (my_rank gs) tag) (arrived ?wr) = Some ?m"
    by (rule arrives_first [OF assms(7) assms(5) assms(1)])
  from recv_T_right_size [OF g f, of n] d assms(1,2)
  have rt: "\<exists>w'. Communicator_recv_T n cr (my_rank gs) tag ?wr = Inr (v, w')"
    by simp
  have "\<exists>ws'. Communicator_send_T n cs v (my_rank gr) tag ws = Inr ws' \<and>
          handed_over ws ws' = [?m]"
    by (simp add: send_T_returns [OF assms(3) assms(6) assms(1) assms(2)] handed_over_def
        called_simps)
  then show ?thesis using rt by fastforce
qed

text \<open>
  With the typed \<^verbatim>\<open>isend<T>\<close>, \<^verbatim>\<open>irecv\<close> and \<^verbatim>\<open>get<T>\<close> the value comes back when it
  has more bytes than a string keeps inline.
\<close>

lemma nonblocking_round_trip_long:
  assumes "length v = n" and "n < 2 ^ 31" and "small_string wr < n"
    and "group_of ws (comm cs) = Some gs" and "group_of wr (comm cr) = Some gr"
    and "ctx gs = ctx gr" and "addressable gs (my_rank gr) tag"
    and "find (matches gr (my_rank gs) tag) (arrived wr) = None"
  shows "\<exists>rs ws'. Communicator_isend_T n cs v (my_rank gr) tag ws = Inr (rs, ws') \<and>
            (\<exists>r w1 r' w2. Communicator_irecv cr (my_rank gs) tag
                      (deliver (handed_over ws ws') wr) = Inr (r, w1) \<and>
               Request_get_T n r w1 = Inr (v, r', w2))"
proof -
  let ?m = "outgoing gs v n (my_rank gr) tag"
  let ?wr = "deliver [?m] wr"
  have d: "m_data ?m = v" using assms(1) by (simp add: outgoing_def)
  have g: "group_of ?wr (comm cr) = Some gr" by (simp add: deliver_simps assms(5))
  have f: "find (matches gr (my_rank gs) tag) (arrived ?wr) = Some ?m"
    by (rule arrives_first [OF assms(8) assms(6) assms(1)])
  from irecv_get_T_long [OF g f, of n] d assms(1,2,3)
  have gt: "\<exists>r w1 r' w2. Communicator_irecv cr (my_rank gs) tag ?wr = Inr (r, w1) \<and>
               Request_get_T n r w1 = Inr (v, r', w2)"
    by (simp add: deliver_simps)
  from isend_T_returns [OF assms(4) assms(7) assms(1) assms(2)] obtain rs ws' where
    "Communicator_isend_T n cs v (my_rank gr) tag ws = Inr (rs, ws')"
    and "handed_over ws ws' = [?m]"
    by blast
  with gt show ?thesis by fastforce
qed

text \<open>
  A value that a string keeps inline does not come back: \<^verbatim>\<open>get<T>\<close> passes its size
  check and waits, and the wait writes the bytes to the inline storage of the local
  string of \<^verbatim>\<open>irecv\<close>, which is gone.
\<close>

lemma nonblocking_round_trip_short:
  assumes "length v = n" and "n < 2 ^ 31" and "0 < n" and "n \<le> small_string wr"
    and "group_of ws (comm cs) = Some gs" and "group_of wr (comm cr) = Some gr"
    and "ctx gs = ctx gr" and "addressable gs (my_rank gr) tag"
    and "find (matches gr (my_rank gs) tag) (arrived wr) = None"
  shows "\<exists>rs ws'. Communicator_isend_T n cs v (my_rank gr) tag ws = Inr (rs, ws') \<and>
            (\<exists>r w1. Communicator_irecv cr (my_rank gs) tag
                      (deliver (handed_over ws ws') wr) = Inr (r, w1) \<and>
               Request_get_T n r w1 = Inl (use_after_scope, w1))"
proof -
  let ?m = "outgoing gs v n (my_rank gr) tag"
  let ?wr = "deliver [?m] wr"
  have d: "m_data ?m = v" using assms(1) by (simp add: outgoing_def)
  have g: "group_of ?wr (comm cr) = Some gr" by (simp add: deliver_simps assms(6))
  have f: "find (matches gr (my_rank gs) tag) (arrived ?wr) = Some ?m"
    by (rule arrives_first [OF assms(9) assms(7) assms(1)])
  from irecv_get_T_short [OF g f, of n] d assms(1,2,3,4)
  have gt: "\<exists>r w1. Communicator_irecv cr (my_rank gs) tag ?wr = Inr (r, w1) \<and>
               Request_get_T n r w1 = Inl (use_after_scope, w1)"
    by (simp add: deliver_simps)
  from isend_T_returns [OF assms(5) assms(8) assms(1) assms(2)] obtain rs ws' where
    "Communicator_isend_T n cs v (my_rank gr) tag ws = Inr (rs, ws')"
    and "handed_over ws ws' = [?m]"
    by blast
  with gt show ?thesis by fastforce
qed

text \<open>
  C1, at the failing input. Rank 0 sends the \<^verbatim>\<open>int\<close> 20 to rank 1 with tag 126, with
  the typed \<^verbatim>\<open>isend<T>\<close> or with the typed blocking send; the network delivers the
  message of four bytes. At rank 1 the typed blocking \<^verbatim>\<open>recv<T>\<close> returns 20, byte for
  byte. But \<^verbatim>\<open>irecv\<close> followed by \<^verbatim>\<open>get<T>\<close>, as the demonstration driver calls them,
  does not return the value: \<^verbatim>\<open>get<T>\<close> passes its size check and waits, and
  completing the receive writes to the inline storage of the local string of
  \<^verbatim>\<open>irecv\<close>, which is gone.
\<close>

theorem irecv_get_T_loses_short_value:
  "Communicator_isend_T 4 example_comm twenty 1 126 sender_world =
     Inr (sent_request, sent_world) \<and>
   handed_over sender_world sent_world = [example_message] \<and>
   (\<exists>ws'. Communicator_send_T 4 example_comm twenty 1 126 sender_world = Inr ws' \<and>
      handed_over sender_world ws' = [example_message]) \<and>
   deliver [example_message] idle_world = example_world \<and>
   (\<exists>wr'. Communicator_recv_T 4 example_comm MPI_ANY_SOURCE 126 example_world =
      Inr (twenty, wr')) \<and>
   Communicator_irecv example_comm MPI_ANY_SOURCE 126 example_world =
     Inr (matched_request, matched_world) \<and>
   length (buffer matched_request) = 4 \<and>
   Request_get_T 4 matched_request matched_world = Inl (use_after_scope, matched_world)"
proof -
  have h: "handed_over sender_world sent_world = [example_message]"
    by (simp add: handed_over_def sender_world_def idle_world_def sent_world_def)
  have gs: "group_of sender_world (comm example_comm) = Some sender_group"
    by (simp add: group_of_def sender_world_def idle_world_def example_comm_def MPI_COMM_NULL_def)
  have a: "addressable sender_group 1 126"
    by (simp add: addressable_def sender_group_def)
  have l: "length twenty = 4" "(4::nat) < 2 ^ 31" by (simp_all add: twenty_def)
  have o: "outgoing sender_group twenty 4 1 126 = example_message"
    by (simp add: outgoing_def sender_group_def twenty_def example_message_def)
  have s: "\<exists>ws'. Communicator_send_T 4 example_comm twenty 1 126 sender_world = Inr ws' \<and>
      handed_over sender_world ws' = [example_message]"
    by (simp add: send_T_returns [OF gs a l] handed_over_def called_simps o)
  have d: "deliver [example_message] idle_world = example_world"
    by (simp add: deliver_def example_world_def idle_world_def)
  have r: "\<exists>wr'. Communicator_recv_T 4 example_comm MPI_ANY_SOURCE 126 example_world =
      Inr (twenty, wr')"
    using recv_T_right_size [OF example_group_live' example_message_matches
        example_message_length(2,1)]
    by (simp add: example_message_def twenty_def)
  have b: "length (buffer matched_request) = 4"
    by (simp add: matched_request_def zeros_def)
  have g: "Request_get_T 4 matched_request matched_world =
             Inl (use_after_scope, matched_world)"
    by (rule get_T_dangling [OF matched_operation _ example_message_length(4) b])
       (simp add: example_message_def)
  from isend_example h s d r irecv_example b g show ?thesis by simp
qed

section \<open>Cancellation on drop\<close>

text \<open>
  In \<^verbatim>\<open>mpi-plus.cpp\<close> the destructor and the move assignment go through
  \<^verbatim>\<open>cancel()\<close>: a tracked operation is cancelled, its handle is released and the
  request is left null. The destructor of the second program does the same.
\<close>

lemma cancel_keeps_live:
  assumes "operation_of w h = Some op"
  shows "\<exists>w1 op1. MPI_Cancel w h = Inr w1 \<and> operation_of w1 h = Some op1 \<and>
           calls w1 = calls w @ [Call_Cancel h] \<and>
           (\<forall>k. k \<noteq> h \<longrightarrow> requests w1 k = requests w k)"
  using assms
  by (cases op) (auto simp add: MPI_Cancel_def operation_of_def called_simps split: if_splits)

lemma free_releases:
  assumes "operation_of w h = Some op"
  shows "MPI_Request_free w h = Inr (MPI_REQUEST_NULL, called (Call_Request_free h) (release h w))"
  using assms by (simp add: MPI_Request_free_def)

lemma Request_cancel_releases:
  assumes "operation_of w (request r) = Some op"
  shows "\<exists>w'. Request_cancel r w = Inr (r\<lparr>request := MPI_REQUEST_NULL\<rparr>, w') \<and>
           operation_of w' (request r) = None \<and> requests w' (request r) = None \<and>
           (\<forall>k. k \<noteq> request r \<longrightarrow> requests w' k = requests w k) \<and>
           calls w' = calls w @ [Call_Cancel (request r), Call_Request_free (request r)]"
proof -
  from assms have nn: "\<not> Request_is_null r"
    by (auto simp add: Request_is_null_def operation_of_def split: if_splits)
  from cancel_keeps_live [OF assms] obtain w1 op1 where
    c: "MPI_Cancel w (request r) = Inr w1" and o: "operation_of w1 (request r) = Some op1"
    and l: "calls w1 = calls w @ [Call_Cancel (request r)]"
    and k: "\<forall>k. k \<noteq> request r \<longrightarrow> requests w1 k = requests w k"
    by blast
  show ?thesis
    using nn c l k
    by (simp add: Request_cancel_def free_releases [OF o] called_simps release_simps)
qed

lemma Request_destroy_releases:
  assumes "operation_of w (request r) = Some op"
  shows "\<exists>r' w'. Request_destroy r w = Inr (r', w') \<and> Request_is_null r' \<and>
           operation_of w' (request r) = None \<and>
           calls w' = calls w @ [Call_Cancel (request r), Call_Request_free (request r)]"
  using Request_cancel_releases [OF assms]
  by (auto simp add: Request_destroy_def Request_is_null_def)

lemma Request_move_assign_releases:
  assumes "operation_of w (request this) = Some op"
  shows "\<exists>w'. Request_move_assign this other w =
             Inr (\<lparr>request = request other, buffer = buffer other,
                   buffer_at = moved_string (buffer_at this) (buffer_at other)\<rparr>,
                  \<lparr>request = MPI_REQUEST_NULL, buffer = [],
                   buffer_at = Inline_of_request\<rparr>, w') \<and>
           operation_of w' (request this) = None \<and>
           calls w' = calls w @ [Call_Cancel (request this), Call_Request_free (request this)]"
  using Request_cancel_releases [OF assms]
  by (auto simp add: Request_move_assign_def)

lemma Request_destroy_part_000_releases:
  assumes "operation_of w (request r) = Some op"
  shows "\<exists>r' w'. Request_destroy_part_000 r w = Inr (r', w') \<and> Request_is_null r' \<and>
           operation_of w' (request r) = None \<and>
           calls w' = calls w @ [Call_Cancel (request r), Call_Request_free (request r)]"
  using Request_cancel_releases [OF assms]
  by (auto simp add: Request_destroy_part_000_def Request_cancel_def Request_is_null_def)

text \<open>
  C5, at the failing input. \<^verbatim>\<open>irecv\<close> returns a Request that tracks a receive. The
  move assignment of the second program, assigning a null Request over it, makes no
  transport call: the world is unchanged, the handle of the receive stays live, and no
  Request refers to it any more. The move assignment of \<^verbatim>\<open>mpi-plus.cpp\<close> cancels and
  releases the handle on the same input.
\<close>

theorem move_assign_part_000_leaks:
  "Communicator_irecv example_comm MPI_ANY_SOURCE 126 example_world =
     Inr (matched_request, matched_world) \<and>
   operation_of matched_world (request matched_request) =
     Some (Recv_matched (m_data example_message) 4 Inline_of_local) \<and>
   Request_move_assign_part_000 matched_request Request_default matched_world =
     Inr (Request_default, Request_default, matched_world) \<and>
   (\<exists>w'. Request_move_assign matched_request Request_default matched_world =
      Inr (Request_default, Request_default, w') \<and>
      operation_of w' (request matched_request) = None \<and>
      calls w' = calls matched_world @ [Call_Cancel 1, Call_Request_free 1])"
proof -
  have "\<exists>w'. Request_move_assign matched_request Request_default matched_world =
      Inr (Request_default, Request_default, w') \<and>
      operation_of w' (request matched_request) = None \<and>
      calls w' = calls matched_world @ [Call_Cancel 1, Call_Request_free 1]"
    using Request_move_assign_releases [OF matched_operation, of Request_default]
    by (auto simp add: Request_default_def matched_request_def moved_string_def)
  then show ?thesis
    by (simp add: irecv_example matched_operation Request_move_assign_part_000_def)
       (simp add: Request_default_def matched_request_def moved_string_def)
qed

section \<open>Copies of a Communicator\<close>

text \<open>
  The copy constructor and the copy assignment from a different object duplicate the
  group of a live source and give a null Communicator for a null source. Assigning an
  object to itself is different: it ends null.
\<close>

lemma dup_live:
  assumes "group_of w h = Some g"
  shows "\<exists>w'. MPI_Comm_dup w h = Inr (Suc (comm_counter w), w') \<and>
           group_of w' (Suc (comm_counter w)) = Some (g\<lparr>ctx := Suc (comm_counter w)\<rparr>) \<and>
           (\<forall>k. k \<noteq> Suc (comm_counter w) \<longrightarrow> group_of w' k = group_of w k) \<and>
           calls w' = calls w @ [Call_Comm_dup h]"
  using assms
  by (simp add: MPI_Comm_dup_def Let_def called_simps) (simp add: group_of_def MPI_COMM_NULL_def)

lemma free_live:
  assumes "group_of w h = Some g"
  shows "\<exists>w'. MPI_Comm_free w h = Inr (MPI_COMM_NULL, w') \<and> group_of w' h = None \<and>
           (\<forall>k. k \<noteq> h \<longrightarrow> group_of w' k = group_of w k) \<and>
           comm_counter w' = comm_counter w \<and>
           calls w' = calls w @ [Call_Comm_free h]"
  using assms
  by (simp add: MPI_Comm_free_def called_simps) (simp add: group_of_def)

lemma Communicator_copy_duplicates:
  assumes "group_of w (comm other) = Some g"
  shows "\<exists>c w' g'. Communicator_copy other w = Inr (c, w') \<and> \<not> Communicator_is_null c \<and>
           group_of w' (comm c) = Some g' \<and> my_rank g' = my_rank g \<and> n_ranks g' = n_ranks g \<and>
           calls w' = calls w @ [Call_Comm_dup (comm other)]"
  using dup_live [OF assms] live_not_null [OF assms]
  by (auto simp add: Communicator_copy_def Communicator_is_null_def MPI_COMM_NULL_def)

lemma Communicator_copy_null:
  "Communicator_is_null other \<Longrightarrow> Communicator_copy other w = Inr (Communicator_default, w)"
  by (simp add: Communicator_copy_def)

lemma Communicator_close_live:
  assumes "group_of w (comm c) = Some g"
  shows "\<exists>w'. Communicator_close c w = Inr (c\<lparr>comm := MPI_COMM_NULL\<rparr>, w') \<and>
           group_of w' (comm c) = None \<and>
           (\<forall>k. k \<noteq> comm c \<longrightarrow> group_of w' k = group_of w k) \<and>
           calls w' = calls w @ [Call_Comm_free (comm c)]"
  using free_live [OF assms] live_not_null [OF assms]
  by (auto simp add: Communicator_close_def)

lemma Communicator_assign_null_source:
  assumes "group_of w (comm (s this)) = Some g" and "Communicator_is_null (s other)"
  shows "\<exists>s' w'. Communicator_assign this other s w = Inr (s', w') \<and>
           Communicator_is_null (s' this)"
  using Communicator_close_live [OF assms(1)] assms(2)
  by (auto simp add: Communicator_assign_def Let_def Communicator_is_null_def)

lemma Communicator_assign_duplicates:
  assumes "group_of w (comm (s this)) = Some g" and "group_of w (comm (s other)) = Some g'"
    and "comm (s other) \<noteq> comm (s this)"
  shows "\<exists>s' w' g''. Communicator_assign this other s w = Inr (s', w') \<and>
           \<not> Communicator_is_null (s' this) \<and> group_of w' (comm (s' this)) = Some g'' \<and>
           my_rank g'' = my_rank g' \<and> n_ranks g'' = n_ranks g' \<and>
           calls w' = calls w @ [Call_Comm_free (comm (s this)), Call_Comm_dup (comm (s other))]"
proof -
  from assms(3) have ne: "this \<noteq> other" by auto
  from Communicator_close_live [OF assms(1)] obtain w1 where
    c: "Communicator_close (s this) w = Inr ((s this)\<lparr>comm := MPI_COMM_NULL\<rparr>, w1)"
    and k: "\<forall>k. k \<noteq> comm (s this) \<longrightarrow> group_of w1 k = group_of w k"
    and l: "calls w1 = calls w @ [Call_Comm_free (comm (s this))]"
    by blast
  from k assms have g1: "group_of w1 (comm (s other)) = Some g'" by simp
  from dup_live [OF g1] live_not_null [OF assms(2)] ne show ?thesis
    by (auto simp add: Communicator_assign_def c Let_def l Communicator_is_null_def
        MPI_COMM_NULL_def)
qed

lemma Communicator_assign_self:
  assumes "group_of w (comm (s a)) = Some g"
  shows "\<exists>w'. Communicator_assign a a s w = Inr (s(a := (s a)\<lparr>comm := MPI_COMM_NULL\<rparr>), w') \<and>
           group_of w' (comm (s a)) = None \<and>
           calls w' = calls w @ [Call_Comm_free (comm (s a))]"
  using Communicator_close_live [OF assms]
  by (auto simp add: Communicator_assign_def Let_def Communicator_is_null_def)

text \<open>
  C6, at the failing input. A Communicator that holds a live group of two ranks is
  assigned to itself. The operator closes it, then finds its argument, the same
  object, null and duplicates nothing: the object ends null, with size 0, and the only
  transport call was the release of its group.
\<close>

theorem self_assignment_ends_null:
  "\<not> Communicator_is_null (example_store 0) \<and>
   Communicator_size (example_store 0) idle_world = Inr 2 \<and>
   (\<exists>s' w'. Communicator_assign 0 0 example_store idle_world = Inr (s', w') \<and>
      Communicator_is_null (s' 0) \<and> Communicator_size (s' 0) w' = Inr 0 \<and>
      calls w' = [Call_Comm_free 1])"
proof -
  have g: "group_of idle_world (comm (example_store 0)) = Some example_group"
    by (simp add: example_store_def example_group_live)
  have "Communicator_size (example_store 0) idle_world = Inr 2"
    by (simp add: Communicator_size_def live_not_null [OF g] MPI_Comm_size_def g
        example_group_def)
  moreover have "\<exists>s' w'. Communicator_assign 0 0 example_store idle_world = Inr (s', w') \<and>
      Communicator_is_null (s' 0) \<and> Communicator_size (s' 0) w' = Inr 0 \<and>
      calls w' = [Call_Comm_free 1]"
  proof -
    let ?s = "example_store(0 := (example_store 0)\<lparr>comm := MPI_COMM_NULL\<rparr>)"
    from Communicator_assign_self [of idle_world example_store 0, OF g] obtain w' where
      a: "Communicator_assign 0 0 example_store idle_world = Inr (?s, w')"
      and l: "calls w' = calls idle_world @ [Call_Comm_free (comm (example_store 0))]"
      by blast
    have n: "Communicator_is_null (?s 0)"
      by (simp add: Communicator_is_null_def)
    have "calls w' = [Call_Comm_free 1]"
      using l by (simp add: example_store_def example_comm_def idle_world_def)
    with a n show ?thesis
      by (simp add: Communicator_size_def)
  qed
  ultimately show ?thesis using live_not_null [OF g] by simp
qed

section \<open>All-to-all\<close>

text \<open>
  The exchange: block \<open>j\<close> of equally long pieces laid end to end is piece \<open>j\<close>.
\<close>

lemma block_concat:
  assumes "\<forall>x\<in>set xs. length x = k" and "j < length xs"
  shows "block k j (concat xs @ rest) = xs ! j"
  using assms
proof (induction xs arbitrary: j)
  case Nil
  then show ?case by simp
next
  case (Cons x xs)
  show ?case
  proof (cases j)
    case 0
    with Cons.prems show ?thesis by (simp add: block_def)
  next
    case (Suc i)
    with Cons.prems have "block k i (concat xs @ rest) = xs ! i"
      by (intro Cons.IH) simp_all
    with Suc Cons.prems show ?thesis by (simp add: block_def)
  qed
qed

lemma block_of_concat:
  assumes "\<forall>x\<in>set xs. length x = k" and "j < length xs"
  shows "block k j (concat xs) = xs ! j"
  using block_concat [OF assms, of "[]"] by simp

lemma length_block:
  assumes "i < n" and "n * k \<le> length b"
  shows "length (block k i b) = k"
proof -
  from assms(1) have "Suc i * k \<le> n * k" by (intro mult_le_mono1) simp
  with assms(2) have "k + i * k \<le> length b" by simp
  then show ?thesis by (simp add: block_def)
qed

lemma length_concat_uniform:
  "\<forall>x\<in>set xs. length x = k \<Longrightarrow> length (concat xs) = length xs * k"
  by (induction xs) simp_all

lemma alltoall_returns:
  assumes "group_of w h = Some g" and "0 \<le> my_rank g" and "my_rank g < n_ranks g"
    and "length peers = nat (n_ranks g)"
    and "\<forall>p\<in>set (peers[nat (my_rank g) := (sendbuf, int k)]).
           snd p = int k \<and> nat (n_ranks g) * k \<le> length (fst p)"
    and "length recvbuf = nat (n_ranks g) * k"
  shows "\<exists>r. MPI_Alltoall w peers sendbuf (int k) recvbuf (int k) h =
               Inr (r, called (Call_Alltoall (int k) (int k)) w) \<and>
           length r = nat (n_ranks g) * k \<and>
           (\<forall>j<nat (n_ranks g).
              block k j r =
              block k (nat (my_rank g)) (fst (peers[nat (my_rank g) := (sendbuf, int k)] ! j)))"
proof -
  let ?N = "nat (n_ranks g)" and ?me = "nat (my_rank g)"
  let ?all = "peers[?me := (sendbuf, int k)]"
  let ?pieces = "map (\<lambda>(b, k). block (nat k) ?me b) ?all"
  have me: "?me < ?N" using assms(2,3) by simp
  have ok: "list_all (\<lambda>(b, k'). k' = int k \<and> ?N * nat k' \<le> length b) ?all"
    using assms(5) by (auto simp add: list_all_iff)
  have run: "MPI_Alltoall w peers sendbuf (int k) recvbuf (int k) h =
               Inr (concat ?pieces @ [], called (Call_Alltoall (int k) (int k)) w)"
    using assms(1,2,4,6) me ok by (simp add: MPI_Alltoall_def Let_def)
  have pieces: "?pieces = map (\<lambda>p. block k ?me (fst p)) ?all"
    using assms(5) by (auto simp add: case_prod_beta)
  have uniform: "\<forall>x\<in>set ?pieces. length x = k"
  proof
    fix x assume "x \<in> set ?pieces"
    then obtain p where p: "p \<in> set ?all" and x: "x = block k ?me (fst p)"
      by (auto simp add: pieces)
    from assms(5) p have "?N * k \<le> length (fst p)" by blast
    with me show "length x = k" unfolding x by (rule length_block)
  qed
  have len: "length ?pieces = ?N" using assms(4) by simp
  have "\<forall>j<?N. block k j (concat ?pieces @ []) = block k ?me (fst (?all ! j))"
  proof (intro allI impI)
    fix j assume j: "j < ?N"
    then have "block k j (concat ?pieces @ []) = ?pieces ! j"
      using uniform len by (intro block_concat) simp_all
    also have "\<dots> = block k ?me (fst (?all ! j))"
      using j assms(4) by (simp add: pieces)
    finally show "block k j (concat ?pieces @ []) = block k ?me (fst (?all ! j))" .
  qed
  moreover have "length (concat ?pieces @ []) = ?N * k"
    using length_concat_uniform [OF uniform] len by simp
  ultimately show ?thesis using run by simp
qed

lemma alltoall_fails_as_fault:
  "MPI_Alltoall w peers sb sc rb rc h = Inl (e, w') \<Longrightarrow> e = transport_fault"
  by (auto simp add: MPI_Alltoall_def Let_def split: option.splits if_splits)

lemma all_to_all_usage_error:
  assumes "group_of w (comm c) = Some g" and "0 < n_ranks g" and "n_ranks g < 2 ^ 64"
  shows "(\<exists>e w'. Communicator_all_to_all c peers sendbuf w = Inl (e, w') \<and> usage_error e) \<longleftrightarrow>
           length sendbuf mod nat (n_ranks g) \<noteq> 0"
proof (cases "length sendbuf mod nat (n_ranks g) = 0")
  case True
  have "\<not> usage_error e" if "Communicator_all_to_all c peers sendbuf w = Inl (e, w')" for e w'
  proof -
    from that True assms(2,3)
    have "MPI_Alltoall w peers sendbuf (to_int (length sendbuf div nat (n_ranks g)))
            (zeros (length sendbuf)) (to_int (length sendbuf div nat (n_ranks g))) (comm c) =
          Inl (e, w')"
      by (simp add: Communicator_all_to_all_def size_live [OF assms(1)] to_size_t_small
          cpp_mod_def cpp_div_def Let_def length_zeros)
    from alltoall_fails_as_fault [OF this] show ?thesis by simp
  qed
  with True show ?thesis by auto
next
  case False
  with assms(2,3) have "Communicator_all_to_all c peers sendbuf w = Inl (invalid_argument, w)"
    by (simp add: Communicator_all_to_all_def size_live [OF assms(1)] to_size_t_small
        cpp_mod_def)
  with False show ?thesis by simp
qed

lemma all_to_all_T_usage_error:
  assumes "group_of w (comm c) = Some g" and "0 < n_ranks g" and "n_ranks g < 2 ^ 64"
  shows "(\<exists>e w'. Communicator_all_to_all_T n c peers vec w = Inl (e, w') \<and> usage_error e) \<longleftrightarrow>
           length vec \<noteq> nat (n_ranks g)"
proof (cases "length vec = nat (n_ranks g)")
  case True
  have "\<not> usage_error e" if "Communicator_all_to_all_T n c peers vec w = Inl (e, w')" for e w'
  proof -
    from that True assms(2,3)
    have "MPI_Alltoall w peers (concat vec) (to_int (length vec div nat (n_ranks g) * n))
            (concat (replicate (length vec) (value_init n)))
            (to_int (length vec div nat (n_ranks g) * n)) (comm c) = Inl (e, w')"
      by (simp add: Communicator_all_to_all_T_def size_live [OF assms(1)] to_size_t_small
          cpp_div_def Let_def split: sum.splits prod.splits)
    from alltoall_fails_as_fault [OF this] show ?thesis by simp
  qed
  with True show ?thesis by auto
next
  case False
  with assms(2,3) have "Communicator_all_to_all_T n c peers vec w = Inl (invalid_argument, w)"
    by (simp add: Communicator_all_to_all_T_def size_live [OF assms(1)] to_size_t_small)
  with False show ?thesis by simp
qed

lemma all_to_all_exchanges:
  assumes "group_of w (comm c) = Some g" and "0 \<le> my_rank g" and "my_rank g < n_ranks g"
    and "n_ranks g < 2 ^ 64"
    and "length bs = nat (n_ranks g)" and "\<forall>b\<in>set bs. length b = length sendbuf"
    and "length sendbuf mod nat (n_ranks g) = 0"
    and "length sendbuf div nat (n_ranks g) < 2 ^ 31"
  shows "\<exists>r w'. Communicator_all_to_all c
                  (map (\<lambda>b. (b, to_int (length b div nat (n_ranks g)))) bs)
                  sendbuf w = Inr (r, w') \<and>
           length r = length sendbuf \<and>
           (\<forall>j<nat (n_ranks g).
              block (length sendbuf div nat (n_ranks g)) j r =
              block (length sendbuf div nat (n_ranks g)) (nat (my_rank g))
                (bs[nat (my_rank g) := sendbuf] ! j))"
proof -
  let ?N = "nat (n_ranks g)" and ?me = "nat (my_rank g)"
  let ?k = "length sendbuf div ?N"
  let ?peers = "map (\<lambda>b. (b, to_int (length b div ?N))) bs"
  have pos: "0 < n_ranks g" using assms(2,3) by simp
  have whole: "?N * ?k = length sendbuf" using assms(7) by auto
  have count: "to_int ?k = int ?k" by (rule to_int_small [OF assms(8)])
  have everyone: "?peers[?me := (sendbuf, int ?k)] =
      map (\<lambda>b. (b, to_int (length b div ?N))) (bs[?me := sendbuf])"
    by (simp add: map_update count)
  have same: "\<forall>b\<in>set (bs[?me := sendbuf]). length b = length sendbuf"
    using assms(6) by (auto dest: set_update_subset_insert [THEN subsetD])
  have ok: "\<forall>p\<in>set (?peers[?me := (sendbuf, int ?k)]).
              snd p = int ?k \<and> ?N * ?k \<le> length (fst p)"
    using same whole by (auto simp add: everyone count)
  have lp: "length ?peers = ?N" using assms(5) by simp
  have lz: "length (zeros (length sendbuf)) = ?N * ?k" by (simp add: length_zeros whole)
  from alltoall_returns [OF assms(1,2,3) lp ok lz] obtain r where
    run: "MPI_Alltoall w ?peers sendbuf (int ?k) (zeros (length sendbuf)) (int ?k) (comm c) =
            Inr (r, called (Call_Alltoall (int ?k) (int ?k)) w)"
    and len: "length r = ?N * ?k"
    and blocks: "\<forall>j<?N. block ?k j r =
                   block ?k ?me (fst (?peers[?me := (sendbuf, int ?k)] ! j))"
    by blast
  have "Communicator_all_to_all c ?peers sendbuf w =
          Inr (r, called (Call_Alltoall (int ?k) (int ?k)) w)"
    using pos assms(4,7) run
    by (simp add: Communicator_all_to_all_def size_live [OF assms(1)] to_size_t_small
        cpp_mod_def cpp_div_def Let_def length_zeros count)
  moreover have "\<forall>j<?N. block ?k j r = block ?k ?me (bs[?me := sendbuf] ! j)"
    using blocks assms(5) by (simp add: everyone)
  ultimately show ?thesis using len whole by auto
qed

lemma all_to_all_T_exchanges:
  assumes "group_of w (comm c) = Some g" and "0 \<le> my_rank g" and "my_rank g < n_ranks g"
    and "n_ranks g < 2 ^ 64"
    and "length vs = nat (n_ranks g)"
    and "\<forall>v\<in>set vs. length v = nat (n_ranks g) \<and> (\<forall>x\<in>set v. length x = n)"
    and "length vec = nat (n_ranks g)" and "\<forall>x\<in>set vec. length x = n"
    and "n < 2 ^ 31"
  shows "\<exists>r w'. Communicator_all_to_all_T n c
                  (map (\<lambda>v. (concat v, to_int (length v div nat (n_ranks g) * n))) vs) vec w =
                Inr (r, w') \<and>
           length r = nat (n_ranks g) \<and>
           (\<forall>j<nat (n_ranks g). r ! j = vs[nat (my_rank g) := vec] ! j ! nat (my_rank g))"
proof -
  let ?N = "nat (n_ranks g)" and ?me = "nat (my_rank g)"
  let ?f = "\<lambda>v. (concat v, to_int (length v div ?N * n))"
  let ?peers = "map ?f vs"
  let ?vs = "vs[?me := vec]"
  let ?recvbuf = "concat (replicate (length vec) (value_init n))"
  have pos: "0 < n_ranks g" and me: "?me < ?N" using assms(2,3) by simp_all
  have one: "length vec div ?N * n = n" using assms(7) pos by simp
  have count: "to_int n = int n" by (rule to_int_small [OF assms(9)])
  have everyone: "?peers[?me := (concat vec, int n)] = map ?f ?vs"
    by (simp add: map_update one count)
  have each: "length v = ?N \<and> (\<forall>x\<in>set v. length x = n)" if "v \<in> set ?vs" for v
    using that assms(6,7,8) by (auto dest: set_update_subset_insert [THEN subsetD])
  have ok: "\<forall>p\<in>set (?peers[?me := (concat vec, int n)]).
              snd p = int n \<and> ?N * n \<le> length (fst p)"
  proof
    fix p assume "p \<in> set (?peers[?me := (concat vec, int n)])"
    then obtain v where v: "v \<in> set ?vs" and p: "p = ?f v" by (auto simp add: everyone)
    from each [OF v] pos have "length v div ?N * n = n" by simp
    moreover from each [OF v] have "length (concat v) = ?N * n"
      using length_concat_uniform [of v n] by auto
    ultimately show "snd p = int n \<and> ?N * n \<le> length (fst p)"
      unfolding p by (simp only: fst_conv snd_conv count) simp
  qed
  have lp: "length ?peers = ?N" using assms(5) by simp
  have lr: "length ?recvbuf = ?N * n"
    using length_concat_uniform [of "replicate (length vec) (value_init n)" n]
    by (simp add: value_init_def length_zeros assms(7))
  from alltoall_returns [OF assms(1,2,3) lp ok lr] obtain bytes where
    run: "MPI_Alltoall w ?peers (concat vec) (int n) ?recvbuf (int n) (comm c) =
            Inr (bytes, called (Call_Alltoall (int n) (int n)) w)"
    and blocks: "\<forall>j<?N. block n j bytes =
                   block n ?me (fst (?peers[?me := (concat vec, int n)] ! j))"
    by blast
  have call: "Communicator_all_to_all_T n c ?peers vec w =
          Inr (elements n ?N bytes, called (Call_Alltoall (int n) (int n)) w)"
    using pos assms(4,7) run
    by (simp add: Communicator_all_to_all_T_def size_live [OF assms(1)] to_size_t_small
        cpp_div_def Let_def count)
  have "elements n ?N bytes ! j = ?vs ! j ! ?me" if j: "j < ?N" for j
  proof -
    have in_vs: "?vs ! j \<in> set ?vs" using j assms(5) by simp
    have "elements n ?N bytes ! j = block n j bytes" using j by (simp add: elements_def)
    also have "\<dots> = block n ?me (concat (?vs ! j))"
      using blocks j assms(5) by (simp add: everyone)
    also have "\<dots> = ?vs ! j ! ?me"
      using each [OF in_vs] me by (intro block_of_concat) simp_all
    finally show ?thesis .
  qed
  with call show ?thesis by (simp add: elements_def)
qed

text \<open>
  C4, as amended. On a live communicator of \<open>N\<close> ranks the byte-string
  \<^verbatim>\<open>all_to_all\<close> raises a usage error exactly when the length of the buffer is not a
  multiple of \<open>N\<close>, and the typed \<^verbatim>\<open>all_to_all\<close> raises one exactly when the number
  of elements is not \<open>N\<close>. When the check passes, every rank calls with a buffer
  of the same length, and the byte count of a share fits an \<^verbatim>\<open>int\<close> (it is less than
  \<open>2 ^ 31\<close>), the call returns a buffer of that length cut into \<open>N\<close> equal shares
  (one element each in the typed form), and the share at position \<open>j\<close> is the share
  that rank \<open>j\<close> addressed to this rank. \<open>bs\<close> and \<open>vs\<close> list the buffers of all
  ranks in rank order; the entry at this rank's own index is replaced by its own
  buffer.
\<close>

theorem all_to_all_checks_and_exchanges:
  assumes "group_of w (comm c) = Some g" and "0 \<le> my_rank g" and "my_rank g < n_ranks g"
    and "n_ranks g < 2 ^ 64"
  shows "((\<exists>e w'. Communicator_all_to_all c peers sendbuf w = Inl (e, w') \<and> usage_error e) \<longleftrightarrow>
            length sendbuf mod nat (n_ranks g) \<noteq> 0) \<and>
         ((\<exists>e w'. Communicator_all_to_all_T n c peers vec w = Inl (e, w') \<and> usage_error e) \<longleftrightarrow>
            length vec \<noteq> nat (n_ranks g)) \<and>
         (length bs = nat (n_ranks g) \<and> (\<forall>b\<in>set bs. length b = length sendbuf) \<and>
          length sendbuf mod nat (n_ranks g) = 0 \<and>
          length sendbuf div nat (n_ranks g) < 2 ^ 31 \<longrightarrow>
            (\<exists>r w'. Communicator_all_to_all c
                       (map (\<lambda>b. (b, to_int (length b div nat (n_ranks g)))) bs) sendbuf w =
                     Inr (r, w') \<and>
               length r = length sendbuf \<and>
               (\<forall>j<nat (n_ranks g).
                  block (length sendbuf div nat (n_ranks g)) j r =
                  block (length sendbuf div nat (n_ranks g)) (nat (my_rank g))
                    (bs[nat (my_rank g) := sendbuf] ! j)))) \<and>
         (length vs = nat (n_ranks g) \<and>
          (\<forall>v\<in>set vs. length v = nat (n_ranks g) \<and> (\<forall>x\<in>set v. length x = n)) \<and>
          length vec = nat (n_ranks g) \<and> (\<forall>x\<in>set vec. length x = n) \<and>
          n < 2 ^ 31 \<longrightarrow>
            (\<exists>r w'. Communicator_all_to_all_T n c
                       (map (\<lambda>v. (concat v, to_int (length v div nat (n_ranks g) * n))) vs)
                       vec w =
                     Inr (r, w') \<and>
               length r = nat (n_ranks g) \<and>
               (\<forall>j<nat (n_ranks g).
                  r ! j = vs[nat (my_rank g) := vec] ! j ! nat (my_rank g))))"
proof -
  have pos: "0 < n_ranks g" using assms(2,3) by simp
  note a = all_to_all_usage_error [OF assms(1) pos assms(4)]
  note b = all_to_all_T_usage_error [OF assms(1) pos assms(4)]
  note c = all_to_all_exchanges [OF assms]
  note d = all_to_all_T_exchanges [OF assms]
  show ?thesis
  proof (intro conjI impI)
    show "(\<exists>e w'. Communicator_all_to_all c peers sendbuf w = Inl (e, w') \<and> usage_error e) \<longleftrightarrow>
            length sendbuf mod nat (n_ranks g) \<noteq> 0" by (rule a)
    show "(\<exists>e w'. Communicator_all_to_all_T n c peers vec w = Inl (e, w') \<and> usage_error e) \<longleftrightarrow>
            length vec \<noteq> nat (n_ranks g)" by (rule b)
  next
    assume "length bs = nat (n_ranks g) \<and> (\<forall>b\<in>set bs. length b = length sendbuf) \<and>
          length sendbuf mod nat (n_ranks g) = 0 \<and>
          length sendbuf div nat (n_ranks g) < 2 ^ 31"
    then show "\<exists>r w'. Communicator_all_to_all c
                       (map (\<lambda>b. (b, to_int (length b div nat (n_ranks g)))) bs) sendbuf w =
                     Inr (r, w') \<and>
               length r = length sendbuf \<and>
               (\<forall>j<nat (n_ranks g).
                  block (length sendbuf div nat (n_ranks g)) j r =
                  block (length sendbuf div nat (n_ranks g)) (nat (my_rank g))
                    (bs[nat (my_rank g) := sendbuf] ! j))"
      by (intro c) simp_all
  next
    assume "length vs = nat (n_ranks g) \<and>
          (\<forall>v\<in>set vs. length v = nat (n_ranks g) \<and> (\<forall>x\<in>set v. length x = n)) \<and>
          length vec = nat (n_ranks g) \<and> (\<forall>x\<in>set vec. length x = n) \<and>
          n < 2 ^ 31"
    then show "\<exists>r w'. Communicator_all_to_all_T n c
                       (map (\<lambda>v. (concat v, to_int (length v div nat (n_ranks g) * n))) vs)
                       vec w =
                     Inr (r, w') \<and>
               length r = nat (n_ranks g) \<and>
               (\<forall>j<nat (n_ranks g).
                  r ! j = vs[nat (my_rank g) := vec] ! j ! nat (my_rank g))"
      by (intro d) simp_all
  qed
qed

theorem all_to_all_checks_and_exchanges_witness:
  "group_of idle_world (comm example_comm) = Some example_group \<and>
   0 \<le> my_rank example_group \<and> my_rank example_group < n_ranks example_group \<and>
   n_ranks example_group < 2 ^ 64 \<and>
   (\<exists>e w'. Communicator_all_to_all example_comm [] ''abc'' idle_world = Inl (e, w') \<and>
      usage_error e) \<and>
   (\<exists>e w'. Communicator_all_to_all_T 1 example_comm [] [''a'', ''b'', ''c''] idle_world =
        Inl (e, w') \<and>
      usage_error e) \<and>
   (\<exists>r w'. Communicator_all_to_all example_comm [(''ab'', 1), (''zz'', 1)] ''cd'' idle_world =
        Inr (r, w') \<and>
      length r = 2 \<and> block 1 0 r = ''b'' \<and> block 1 1 r = ''d'') \<and>
   (\<exists>r w'. Communicator_all_to_all_T 1 example_comm [(''ab'', 1), (''zz'', 1)] [''c'', ''d'']
        idle_world = Inr (r, w') \<and>
      length r = 2 \<and> r ! 0 = ''b'' \<and> r ! 1 = ''d'')"
proof -
  have r: "0 \<le> my_rank example_group" "my_rank example_group < n_ranks example_group"
    "n_ranks example_group < 2 ^ 64"
    and v: "nat (n_ranks example_group) = 2" "nat (my_rank example_group) = 1"
    by (simp_all add: example_group_def)
  note t = all_to_all_checks_and_exchanges [OF example_group_live r]
  have a: "\<exists>e w'. Communicator_all_to_all example_comm [] ''abc'' idle_world = Inl (e, w') \<and>
      usage_error e"
    using t [where sendbuf = "''abc''" and peers = "[]" and n = 1 and vec = "[]" and bs = "[]"
        and vs = "[]"]
    by (simp add: v)
  have b: "\<exists>e w'. Communicator_all_to_all_T 1 example_comm [] [''a'', ''b'', ''c''] idle_world =
        Inl (e, w') \<and>
      usage_error e"
    using t [where vec = "[''a'', ''b'', ''c'']" and peers = "[]" and n = 1 and sendbuf = "[]"
        and bs = "[]" and vs = "[]"]
    by (simp add: v)
  have "\<exists>r w'. Communicator_all_to_all example_comm [(''ab'', 1), (''zz'', 1)] ''cd'' idle_world =
        Inr (r, w') \<and>
      length r = 2 \<and> (\<forall>j<2. block 1 j r = block 1 1 ([''ab'', ''cd''] ! j))"
    using t [where sendbuf = "''cd''" and bs = "[''ab'', ''zz'']" and peers = "[]" and n = 1
        and vec = "[]" and vs = "[]"]
    by (auto simp add: v to_int_def)
  then obtain r w' where
    "Communicator_all_to_all example_comm [(''ab'', 1), (''zz'', 1)] ''cd'' idle_world = Inr (r, w')"
    "length r = 2" and j: "\<forall>j<2. block 1 j r = block 1 1 ([''ab'', ''cd''] ! j)"
    by blast
  moreover from j [rule_format, of 0] j [rule_format, of 1]
  have "block 1 0 r = ''b''" "block 1 1 r = ''d''"
    by (simp_all add: block_def)
  ultimately have c: "\<exists>r w'. Communicator_all_to_all example_comm [(''ab'', 1), (''zz'', 1)] ''cd''
        idle_world = Inr (r, w') \<and>
      length r = 2 \<and> block 1 0 r = ''b'' \<and> block 1 1 r = ''d''"
    by blast
  have "\<exists>r w'. Communicator_all_to_all_T 1 example_comm [(''ab'', 1), (''zz'', 1)] [''c'', ''d'']
        idle_world = Inr (r, w') \<and>
      length r = 2 \<and> (\<forall>j<2. r ! j = [[''a'', ''b''], [''c'', ''d'']] ! j ! 1)"
    using t [where vec = "[''c'', ''d'']" and vs = "[[''a'', ''b''], [''z'', ''z'']]" and n = 1
        and peers = "[]" and sendbuf = "[]" and bs = "[]"]
    by (auto simp add: v to_int_def)
  then obtain r w' where
    "Communicator_all_to_all_T 1 example_comm [(''ab'', 1), (''zz'', 1)] [''c'', ''d'']
        idle_world = Inr (r, w')"
    "length r = 2" and j: "\<forall>j<2. r ! j = [[''a'', ''b''], [''c'', ''d'']] ! j ! 1"
    by blast
  moreover from j [rule_format, of 0] j [rule_format, of 1]
  have "r ! 0 = ''b''" "r ! 1 = ''d''"
    by simp_all
  ultimately have d: "\<exists>r w'. Communicator_all_to_all_T 1 example_comm [(''ab'', 1), (''zz'', 1)]
        [''c'', ''d''] idle_world = Inr (r, w') \<and>
      length r = 2 \<and> r ! 0 = ''b'' \<and> r ! 1 = ''d''"
    by blast
  from example_group_live r a b c d show ?thesis by simp
qed

text \<open>
  C4 as stated fails for the typed form: in a group of two ranks a vector of four
  elements has a length that the group size divides, and the call raises the usage
  error all the same.
\<close>

theorem all_to_all_T_divisible_counterexample:
  "Communicator_size example_comm idle_world = Inr 2 \<and>
   length [''a'', ''b'', ''c'', ''d''] mod nat 2 = 0 \<and>
   Communicator_all_to_all_T 1 example_comm [(''wxyz'', 2), (''abcd'', 2)]
     [''a'', ''b'', ''c'', ''d''] idle_world = Inl (invalid_argument, idle_world) \<and>
   usage_error invalid_argument"
  by (simp add: size_live [OF example_group_live] example_group_def
      Communicator_all_to_all_T_def to_size_t_def)

text \<open>
  C10. The divisibility check of the byte-string \<^verbatim>\<open>all_to_all\<close> takes the remainder by
  \<^verbatim>\<open>size()\<close> unguarded. On a null Communicator \<^verbatim>\<open>size()\<close> is 0 and the call divides by
  zero, which is not a usage error. When \<^verbatim>\<open>size()\<close> is positive the call never divides
  by zero, and a length that is not a multiple of the size is reported as an invalid
  argument.
\<close>

theorem all_to_all_null_divides_by_zero:
  "(Communicator_is_null c \<longrightarrow>
      Communicator_size c w = Inr 0 \<and>
      Communicator_all_to_all c peers sendbuf w = Inl (division_by_zero, w) \<and>
      \<not> usage_error division_by_zero) \<and>
   (Communicator_size c w = Inr n \<and> 0 < n \<and> n < 2 ^ 64 \<longrightarrow>
      (\<forall>w'. Communicator_all_to_all c peers sendbuf w \<noteq> Inl (division_by_zero, w')) \<and>
      (length sendbuf mod nat n \<noteq> 0 \<longrightarrow>
         Communicator_all_to_all c peers sendbuf w = Inl (invalid_argument, w)))"
  by (auto simp add: Communicator_all_to_all_def Communicator_size_def cpp_mod_def cpp_div_def
      to_size_t_def MPI_Alltoall_def Let_def length_zeros split: option.splits sum.splits if_splits)

theorem all_to_all_null_divides_by_zero_witness:
  "Communicator_is_null Communicator_default \<and>
   Communicator_size Communicator_default idle_world = Inr 0 \<and>
   Communicator_all_to_all Communicator_default [] ''ab'' idle_world =
     Inl (division_by_zero, idle_world) \<and>
   Communicator_size example_comm idle_world = Inr 2 \<and>
   Communicator_all_to_all example_comm [] ''abc'' idle_world =
     Inl (invalid_argument, idle_world)"
proof -
  have n: "Communicator_is_null Communicator_default"
    by (simp add: Communicator_is_null_def Communicator_default_def)
  have s: "Communicator_size example_comm idle_world = Inr 2"
    by (simp add: Communicator_size_def Communicator_is_null_def MPI_Comm_size_def
        example_group_live example_group_def)
       (simp add: example_comm_def MPI_COMM_NULL_def)
  show ?thesis
    using n s
      all_to_all_null_divides_by_zero [where c = Communicator_default and w = idle_world
        and peers = "[]" and sendbuf = "''ab''"]
      all_to_all_null_divides_by_zero [where c = example_comm and w = idle_world and n = 2
        and peers = "[]" and sendbuf = "''abc''"]
    by simp
qed
end
